theory Spec2Isabelle
  imports Complex_Main
begin

section \<open>Python and numpy preliminaries\<close>

text \<open>
  Exceptions of the source are values: a method that can raise returns
  \<open>py_error + 'a\<close>, with \<open>Inl\<close> for the exception.
\<close>

datatype py_error =
  ValueError | IndexError | TypeError | NotImplementedError | RuntimeError
  | AttributeError | NameError

text \<open>\<open>str.lower()\<close> on ASCII strings.\<close>

definition lower_char :: "char \<Rightarrow> char" where
  "lower_char c =
     (case map_of (zip ''ABCDEFGHIJKLMNOPQRSTUVWXYZ'' ''abcdefghijklmnopqrstuvwxyz'') c of
        None \<Rightarrow> c | Some d \<Rightarrow> d)"

definition lower :: "string \<Rightarrow> string" where
  "lower s = map lower_char s"

text \<open>
  A numpy array is its dtype together with its entries; the entries of an array of rank 3
  are a nested list (axis 0 outermost), those of a matrix a list of rows.
  Entries are complex numbers; an array of dtype \<open>float64\<close> holds entries with zero
  imaginary part, and storing a complex value into it keeps the real part only (numpy's
  unsafe cast on item assignment). Arrays of the source are rectangular; the predicate
  \<open>has_shape\<close> says so. An axis of length 0 hides the lengths of the axes after it;
  \<open>shape1\<close> and \<open>shape2\<close> read them as 0 then.
\<close>

datatype dtype = float64 | complex128

record 'a nd =
  dtype :: dtype
  elems :: 'a

type_synonym ndarray = "complex list list list nd"

definition iscomplexobj :: "ndarray \<Rightarrow> bool" where
  "iscomplexobj a = (dtype a = complex128)"

definition cast :: "dtype \<Rightarrow> complex \<Rightarrow> complex" where
  "cast t v = (case t of float64 \<Rightarrow> complex_of_real (Re v) | complex128 \<Rightarrow> v)"

definition shape1 :: "'a list list list \<Rightarrow> nat" where
  "shape1 a = (case a of [] \<Rightarrow> 0 | p # _ \<Rightarrow> length p)"

definition shape2 :: "'a list list list \<Rightarrow> nat" where
  "shape2 a = (case a of [] \<Rightarrow> 0 | p # _ \<Rightarrow> (case p of [] \<Rightarrow> 0 | r # _ \<Rightarrow> length r))"

definition has_shape :: "'a list list list \<Rightarrow> nat \<Rightarrow> nat \<Rightarrow> nat \<Rightarrow> bool" where
  "has_shape a n0 n1 n2 =
     (length a = n0 \<and> list_all (\<lambda>p. length p = n1 \<and> list_all (\<lambda>r. length r = n2) p) a)"

definition zeros3 :: "nat \<Rightarrow> nat \<Rightarrow> nat \<Rightarrow> 'a \<Rightarrow> 'a list list list" where
  "zeros3 n0 n1 n2 z = replicate n0 (replicate n1 (replicate n2 z))"

text \<open>\<open>numpy.arange(k)\<close>: the integers \<open>0, ..., k - 1\<close> (none when \<open>k \<le> 0\<close>).\<close>

definition arange :: "int \<Rightarrow> nat list" where
  "arange k = [0..<nat k]"

text \<open>The slice \<open>xs[:k]\<close>; a negative \<open>k\<close> counts from the end.\<close>

definition slice_to :: "int \<Rightarrow> 'a list \<Rightarrow> 'a list" where
  "slice_to k xs = (if 0 \<le> k then take (nat k) xs else take (nat (int (length xs) + k)) xs)"

text \<open>\<open>row[:k] = f(row[:k])\<close>.\<close>

definition map_prefix :: "nat \<Rightarrow> ('a \<Rightarrow> 'a) \<Rightarrow> 'a list \<Rightarrow> 'a list" where
  "map_prefix k f row = map f (take k row) @ drop k row"

text \<open>\<open>a[:, l, :l+1] = f(a[:, l, :l+1])\<close>; IndexError when axis 1 has no index \<open>l\<close>.\<close>

definition row_op :: "nat \<Rightarrow> ('a \<Rightarrow> 'a) \<Rightarrow> 'a list list list \<Rightarrow> py_error + 'a list list list" where
  "row_op l f a =
     (if l < shape1 a then Inr (map (\<lambda>p. p[l := map_prefix (l + 1) f (p ! l)]) a)
      else Inl IndexError)"

text \<open>\<open>a[:, :, m] = f(a[:, :, m])\<close>; IndexError when axis 2 has no index \<open>m\<close>.\<close>

definition col_op :: "nat \<Rightarrow> ('a \<Rightarrow> 'a) \<Rightarrow> 'a list list list \<Rightarrow> py_error + 'a list list list" where
  "col_op m f a =
     (if m < shape2 a then Inr (map (map (\<lambda>r. r[m := f (r ! m)])) a)
      else Inl IndexError)"

text \<open>A \<open>for\<close> loop whose body may raise: the first exception ends the loop.\<close>

fun for_loop :: "('i \<Rightarrow> 's \<Rightarrow> py_error + 's) \<Rightarrow> 'i list \<Rightarrow> 's \<Rightarrow> py_error + 's" where
  "for_loop body [] s = Inr s"
| "for_loop body (i # is) s =
     (case body i s of Inl e \<Rightarrow> Inl e | Inr s' \<Rightarrow> for_loop body is s')"

text \<open>\<open>a[i, l, m] = v\<close> for indices in range.\<close>

definition set3 :: "'a list list list \<Rightarrow> nat \<Rightarrow> nat \<Rightarrow> nat \<Rightarrow> 'a \<Rightarrow> 'a list list list" where
  "set3 a i l m v = a[i := (a ! i)[l := (a ! i ! l)[m := v]]]"

section \<open>Coefficient classes\<close>

record SHCoeffs =
  mask_arr :: "bool list list list"
  lmax :: int
  kind :: string
  normalization :: string
  csphase :: int
  coeffs :: ndarray

text \<open>
  The mask built at the start of \<open>SHRealCoeffs.__init__\<close> and
  \<open>SHComplexCoeffs.__init__\<close>:
  \<^verbatim>\<open>
  mask = _np.zeros((2, lmax + 1, lmax + 1), dtype=_np.bool)
  mask[0, 0, 0] = True
  for l in _np.arange(lmax + 1):
      mask[:, l, :l + 1] = True
  mask[1, :, 0] = False
  \<close>
  \<open>lmax\<close> is \<open>coeffs.shape[1] - 1\<close>, so it is at least \<open>-1\<close>; at \<open>-1\<close> the
  array is empty and \<open>mask[0, 0, 0] = True\<close> raises IndexError.
\<close>

definition make_mask :: "int \<Rightarrow> py_error + bool list list list" where
  "make_mask lm =
     (let n = nat (lm + 1);
          mask0 = zeros3 2 n n False
      in if n = 0 then Inl IndexError
         else
           (case for_loop (\<lambda>l. row_op l (\<lambda>_. True)) (arange (lm + 1))
                   (set3 mask0 0 0 0 True) of
              Inl e \<Rightarrow> Inl e
            | Inr mask1 \<Rightarrow> Inr (mask1[1 := map (\<lambda>r. r[0 := False]) (mask1 ! 1)])))"

text \<open>
  The two constructors differ in the constant \<open>kind\<close> only. With \<open>copy\<close> the
  entries outside the mask are set to zero (\<open>self.coeffs[~mask] = 0.\<close>, an IndexError
  when the array does not have the shape of the mask); without it the caller's array is
  stored as it is.
\<close>

definition coeffs_init :: "string \<Rightarrow> ndarray \<Rightarrow> string \<Rightarrow> int \<Rightarrow> bool \<Rightarrow> py_error + SHCoeffs" where
  "coeffs_init knd a nrm cs copy =
     (let lm = int (shape1 (elems a)) - 1 in
      case make_mask lm of
        Inl e \<Rightarrow> Inl e
      | Inr msk \<Rightarrow>
          if copy then
            (if has_shape (elems a) 2 (nat (lm + 1)) (nat (lm + 1)) then
               Inr \<lparr>mask_arr = msk, lmax = lm, kind = knd, normalization = nrm, csphase = cs,
                    coeffs = a\<lparr>elems :=
                      map2 (map2 (map2 (\<lambda>b v. if b then v else 0))) msk (elems a)\<rparr>\<rparr>
             else Inl IndexError)
          else
            Inr \<lparr>mask_arr = msk, lmax = lm, kind = knd, normalization = nrm, csphase = cs,
                 coeffs = a\<rparr>)"

definition SHRealCoeffs_init :: "ndarray \<Rightarrow> string \<Rightarrow> int \<Rightarrow> bool \<Rightarrow> py_error + SHCoeffs" where
  "SHRealCoeffs_init = coeffs_init ''real''"

definition SHComplexCoeffs_init :: "ndarray \<Rightarrow> string \<Rightarrow> int \<Rightarrow> bool \<Rightarrow> py_error + SHCoeffs" where
  "SHComplexCoeffs_init = coeffs_init ''complex''"

text \<open>
  \<open>for cls in self.__subclasses__(): if cls.istype(kind): return cls(...)\<close>: the
  factory returns \<open>None\<close> when no subclass answers to \<open>kind\<close>.
\<close>

definition subclass_init ::
  "string \<Rightarrow> ndarray \<Rightarrow> string \<Rightarrow> int \<Rightarrow> bool \<Rightarrow> py_error + SHCoeffs option" where
  "subclass_init knd a nrm cs copy =
     (if knd = ''real'' then map_sum id Some (SHRealCoeffs_init a nrm cs copy)
      else if knd = ''complex'' then map_sum id Some (SHComplexCoeffs_init a nrm cs copy)
      else Inr None)"

definition from_zeros :: "int \<Rightarrow> string \<Rightarrow> string \<Rightarrow> int \<Rightarrow> py_error + SHCoeffs option" where
  "from_zeros lm knd nrm cs =
     (if lower knd \<notin> set [''real'', ''complex''] then Inl ValueError
      else if lower nrm \<notin> set [''4pi'', ''ortho'', ''schmidt''] then Inl ValueError
      else if cs \<noteq> 1 \<and> cs \<noteq> - 1 then Inl ValueError
      else if lm + 1 < 0 then Inl ValueError
      else
        (let nl = nat (lm + 1);
             a = (if lower knd = ''real'' then \<lparr>dtype = float64, elems = zeros3 2 nl nl 0\<rparr>
                  else \<lparr>dtype = complex128, elems = zeros3 2 nl nl 0\<rparr>)
         in subclass_init knd a (lower nrm) cs True))"

text \<open>
  \<open>from_array\<close> takes \<open>kind\<close> from the dtype, so one of the two subclasses always
  answers.
\<close>

definition from_array :: "ndarray \<Rightarrow> string \<Rightarrow> int \<Rightarrow> bool \<Rightarrow> py_error + SHCoeffs" where
  "from_array a nrm cs copy =
     (if lower nrm \<notin> set [''4pi'', ''ortho'', ''schmidt''] then Inl ValueError
      else if cs \<noteq> 1 \<and> cs \<noteq> - 1 then Inl ValueError
      else if iscomplexobj a then SHComplexCoeffs_init a (lower nrm) cs copy
      else SHRealCoeffs_init a (lower nrm) cs copy)"

text \<open>
  \<open>from_random\<close>: the random draw and its scaling by the power spectrum are floating
  point and a random source; their outcome, the array \<open>coeffs\<close> of shape
  \<open>(2, len(power), len(power))\<close>, is the argument \<open>a\<close>. What is modelled is the
  validation before the draw and the construction after it (with the default
  \<open>copy=True\<close>).
\<close>

definition from_random :: "ndarray \<Rightarrow> string \<Rightarrow> string \<Rightarrow> int \<Rightarrow> py_error + SHCoeffs option" where
  "from_random a knd nrm cs =
     (if lower nrm \<notin> set [''4pi'', ''ortho'', ''schmidt''] then Inl ValueError
      else if cs \<noteq> 1 \<and> cs \<noteq> - 1 then Inl ValueError
      else if lower knd \<notin> set [''real'', ''complex''] then Inl ValueError
      else subclass_init knd a (lower nrm) cs True)"

text \<open>
  \<open>from_file\<close>: the array read from the file (by the backend's \<open>SHRead\<close> or by
  \<open>numpy.load\<close>) is the argument \<open>a\<close>.
\<close>

definition from_file ::
  "ndarray \<Rightarrow> int option \<Rightarrow> string \<Rightarrow> string \<Rightarrow> string \<Rightarrow> int \<Rightarrow> py_error + SHCoeffs option" where
  "from_file a lm fmt knd nrm cs =
     (if lower nrm \<notin> set [''4pi'', ''ortho'', ''schmidt''] then Inl ValueError
      else if cs \<noteq> 1 \<and> cs \<noteq> - 1 then Inl ValueError
      else if lower fmt = ''shtools'' \<and> lm = None then Inl ValueError
      else if lower fmt = ''shtools'' then
        (if lower knd = ''real'' then subclass_init knd a (lower nrm) cs True
         else Inl NotImplementedError)
      else if lower fmt = ''npy'' then subclass_init knd a (lower nrm) cs True
      else Inl NotImplementedError)"

subsection \<open>Normalization and phase conversion\<close>

text \<open>
  \<open>SHRealCoeffs._to_array\<close> and \<open>SHComplexCoeffs._to_array\<close> have the same body.
  A float factor scales an entry by \<open>*\<^sub>R\<close>, and divides it by \<open>/\<^sub>R\<close>.
\<close>

definition coeffs__to_array :: "SHCoeffs \<Rightarrow> string \<Rightarrow> int \<Rightarrow> int \<Rightarrow> py_error + ndarray" where
  "coeffs__to_array s output_normalization output_csphase lm =
     (let c0 = map (\<lambda>p. map (slice_to (lm + 1)) (slice_to (lm + 1) p)) (elems (coeffs s));
          degrees = arange (lm + 1);
          nrm = normalization s
      in
      case
        (if nrm = output_normalization then Inr c0
         else if nrm = ''4pi'' \<and> output_normalization = ''schmidt'' then
           for_loop (\<lambda>l. row_op l (\<lambda>x. sqrt (2 * real l + 1) *\<^sub>R x)) degrees c0
         else if nrm = ''4pi'' \<and> output_normalization = ''ortho'' then
           Inr (map (map (map (\<lambda>x. sqrt (4 * pi) *\<^sub>R x))) c0)
         else if nrm = ''schmidt'' \<and> output_normalization = ''4pi'' then
           for_loop (\<lambda>l. row_op l (\<lambda>x. x /\<^sub>R sqrt (2 * real l + 1))) degrees c0
         else if nrm = ''schmidt'' \<and> output_normalization = ''ortho'' then
           for_loop (\<lambda>l. row_op l (\<lambda>x. sqrt (4 * pi / (2 * real l + 1)) *\<^sub>R x)) degrees c0
         else if nrm = ''ortho'' \<and> output_normalization = ''4pi'' then
           Inr (map (map (map (\<lambda>x. x /\<^sub>R sqrt (4 * pi)))) c0)
         else if nrm = ''ortho'' \<and> output_normalization = ''schmidt'' then
           for_loop (\<lambda>l. row_op l (\<lambda>x. sqrt ((2 * real l + 1) / (4 * pi)) *\<^sub>R x)) degrees c0
         else Inr c0)
      of
        Inl e \<Rightarrow> Inl e
      | Inr c1 \<Rightarrow>
          (case
             (if output_csphase \<noteq> csphase s then
                for_loop (\<lambda>m c. if m mod 2 = 1 then col_op m uminus c else Inr c) degrees c1
              else Inr c1)
           of
             Inl e \<Rightarrow> Inl e
           | Inr c2 \<Rightarrow> Inr ((coeffs s)\<lparr>elems := c2\<rparr>)))"

definition SHRealCoeffs__to_array :: "SHCoeffs \<Rightarrow> string \<Rightarrow> int \<Rightarrow> int \<Rightarrow> py_error + ndarray" where
  "SHRealCoeffs__to_array = coeffs__to_array"

definition SHComplexCoeffs__to_array :: "SHCoeffs \<Rightarrow> string \<Rightarrow> int \<Rightarrow> int \<Rightarrow> py_error + ndarray" where
  "SHComplexCoeffs__to_array = coeffs__to_array"

text \<open>
  A method of a subclass is looked up by the class of the instance, which the field
  \<open>kind\<close> records; an instance of neither class has no such method.
\<close>

definition to_array ::
  "SHCoeffs \<Rightarrow> string option \<Rightarrow> int option \<Rightarrow> int option \<Rightarrow> py_error + ndarray" where
  "to_array s nrm_opt cs_opt lm_opt =
     (let nrm = (case nrm_opt of None \<Rightarrow> normalization s | Some n \<Rightarrow> n);
          cs = (case cs_opt of None \<Rightarrow> csphase s | Some c \<Rightarrow> c)
      in
      if lower nrm \<notin> set [''4pi'', ''ortho'', ''schmidt''] then Inl ValueError
      else if cs \<noteq> 1 \<and> cs \<noteq> - 1 then Inl ValueError
      else if (case lm_opt of None \<Rightarrow> False | Some l \<Rightarrow> l > lmax s) then Inl ValueError
      else
        (let lm = (case lm_opt of None \<Rightarrow> lmax s | Some l \<Rightarrow> l) in
         if kind s = ''real'' then SHRealCoeffs__to_array s (lower nrm) cs lm
         else if kind s = ''complex'' then SHComplexCoeffs__to_array s (lower nrm) cs lm
         else Inl AttributeError))"

subsection \<open>Setting coefficients in place\<close>

text \<open>
  \<open>set_coeffs(values, ls, ms)\<close>, in the two forms of call that its docstring gives:
  three Python scalars, as in \<open>x.set_coeffs(10., 1, 1)\<close>, or three lists, as in
  \<open>x.set_coeffs([1., 2], [1, 2], [0, -2])\<close>. A value is a Python float (or int) or a
  Python complex number; \<open>numpy.array\<close> of a complex scalar is a complex array.
\<close>

datatype pyval = PyFloat real | PyComplex complex

fun value_of :: "pyval \<Rightarrow> complex" where
  "value_of (PyFloat x) = complex_of_real x"
| "value_of (PyComplex z) = z"

fun is_complex :: "pyval \<Rightarrow> bool" where
  "is_complex (PyFloat x) = False"
| "is_complex (PyComplex z) = True"

datatype set_coeffs_call =
  Scalars pyval int int
  | Lists "pyval list" "int list" "int list"

text \<open>
  numpy's broadcasting of two one-dimensional shapes, of a list to a length, and its
  check of an index against the length of an axis (a negative index counts from the
  end).
\<close>

definition broadcast_len :: "nat \<Rightarrow> nat \<Rightarrow> nat option" where
  "broadcast_len a b =
     (if a = b then Some a else if a = 1 then Some b else if b = 1 then Some a else None)"

definition broadcast_to :: "nat \<Rightarrow> 'a list \<Rightarrow> 'a list" where
  "broadcast_to n xs = (if length xs = n then xs else replicate n (hd xs))"

definition wrap_index :: "nat \<Rightarrow> int \<Rightarrow> nat option" where
  "wrap_index n i =
     (if 0 \<le> i \<and> i < int n then Some (nat i)
      else if - int n \<le> i \<and> i < 0 then Some (nat (int n + i))
      else None)"

text \<open>
  The body is \<open>self.coeffs[mneg_mask, ls, numpy.abs(ms)] = values\<close>, with
  \<open>mneg_mask = (ms < 0).astype(int)\<close>.

  With three scalars the indices are integers and the statement assigns one element:
  numpy checks the three indices (IndexError) and then converts the zero-dimensional
  array \<open>values\<close> to the type of the element; for a complex value and an array of floats
  this conversion raises TypeError.

  With three lists the indices are arrays. \<open>numpy.array([])\<close> is an array of floats,
  which numpy refuses as an index (IndexError). Otherwise the index arrays are broadcast
  to a common length (IndexError when they cannot be), the values are broadcast to that
  length (ValueError when they cannot be), every index is checked (IndexError), and the
  values are assigned in order, cast to the dtype of the array (in an array of floats a
  complex value keeps its real part only), so that of two writes to one entry the later
  one stays.

  The method mutates \<open>self.coeffs\<close>; the model returns the updated instance. An
  exception leaves the array as it was.
\<close>

fun set_coeffs :: "SHCoeffs \<Rightarrow> set_coeffs_call \<Rightarrow> py_error + SHCoeffs" where
  "set_coeffs s (Scalars v l m) =
     (let mneg_mask = (if m < 0 then (1::int) else 0);
          a = elems (coeffs s)
      in
      case wrap_index (length a) mneg_mask of
        None \<Rightarrow> Inl IndexError
      | Some i \<Rightarrow>
          (case wrap_index (shape1 a) l of
             None \<Rightarrow> Inl IndexError
           | Some l' \<Rightarrow>
               (case wrap_index (shape2 a) \<bar>m\<bar> of
                  None \<Rightarrow> Inl IndexError
                | Some m' \<Rightarrow>
                    if dtype (coeffs s) = float64 \<and> is_complex v then Inl TypeError
                    else
                      Inr (s\<lparr>coeffs := (coeffs s)\<lparr>elems :=
                        set3 a i l' m' (cast (dtype (coeffs s)) (value_of v))\<rparr>\<rparr>))))"
| "set_coeffs s (Lists vals ls ms) =
     (let mneg_mask = map (\<lambda>m. if m < 0 then (1::int) else 0) ms;
          a = elems (coeffs s)
      in
      if ls = [] \<or> ms = [] then Inl IndexError
      else
        case broadcast_len (length ls) (length ms) of
          None \<Rightarrow> Inl IndexError
        | Some n \<Rightarrow>
            (let is = map (wrap_index (length a)) (broadcast_to n mneg_mask);
                 ls' = map (wrap_index (shape1 a)) (broadcast_to n ls);
                 ms' = map (wrap_index (shape2 a)) (broadcast_to n (map abs ms))
             in
             if length vals \<noteq> n \<and> length vals \<noteq> 1 then Inl ValueError
             else if None \<in> set is \<or> None \<in> set ls' \<or> None \<in> set ms' then Inl IndexError
             else
               Inr (s\<lparr>coeffs := (coeffs s)\<lparr>elems :=
                 fold (\<lambda>(i, l, m, v) c. set3 c i l m (cast (dtype (coeffs s)) (value_of v)))
                   (zip (map the is)
                      (zip (map the ls') (zip (map the ms') (broadcast_to n vals))))
                   a\<rparr>\<rparr>)))"

subsection \<open>Conversion between real and complex coefficients\<close>

text \<open>
  The backend primitives (\<open>_shtools.SHrtoc\<close>, \<open>SHctor\<close>, \<open>SHPowerSpectrum\<close>, ...) are not
  part of the Python source. A method that calls one takes it as an argument, a total
  function of the array it is given.
\<close>

text \<open>Reading \<open>a[i, l, m]\<close>; IndexError out of range.\<close>

definition get3 :: "'a list list list \<Rightarrow> nat \<Rightarrow> nat \<Rightarrow> nat \<Rightarrow> py_error + 'a" where
  "get3 a i l m =
     (if i < length a \<and> l < length (a ! i) \<and> m < length (a ! i ! l) then Inr (a ! i ! l ! m)
      else Inl IndexError)"

text \<open>A matrix has \<open>n\<close> rows of \<open>n\<close> entries.\<close>

definition is_square :: "'a list list \<Rightarrow> nat \<Rightarrow> bool" where
  "is_square p n = (length p = n \<and> list_all (\<lambda>r. length r = n) p)"

text \<open>
  \<open>SHRealCoeffs._make_complex\<close>. The backend returns the real parts (plane 0) and the
  imaginary parts (plane 1) of the complex coefficients of order \<open>m \<ge> 0\<close>. The two
  plane assignments need planes of the shape \<open>(lmax+1, lmax+1)\<close>; for any other backend
  output the model reports the broadcasting ValueError. The result is built with
  \<open>copy=False\<close>.
\<close>

definition SHRealCoeffs__make_complex :: "(ndarray \<Rightarrow> ndarray) \<Rightarrow> SHCoeffs \<Rightarrow> py_error + SHCoeffs" where
  "SHRealCoeffs__make_complex SHrtoc s =
     (let rcomplex_coeffs = elems (SHrtoc (coeffs s));
          n = nat (lmax s + 1)
      in
      if lmax s + 1 < 0 then Inl ValueError
      else if length rcomplex_coeffs < 2 then Inl IndexError
      else if \<not> is_square (rcomplex_coeffs ! 0) n \<or> \<not> is_square (rcomplex_coeffs ! 1) n
        then Inl ValueError
      else
        (let plane0 = map2 (map2 (\<lambda>x y. x + \<i> * y)) (rcomplex_coeffs ! 0) (rcomplex_coeffs ! 1);
             plane1 = map (map cnj) plane0
         in
         case for_loop
                (\<lambda>m c. if m mod 2 = 1
                        then (if m < shape2 c
                              then Inr (c[1 := map (\<lambda>r. r[m := - (r ! m)]) (c ! 1)])
                              else Inl IndexError)
                        else Inr c)
                (arange (lmax s + 1)) [plane0, plane1]
         of
           Inl e \<Rightarrow> Inl e
         | Inr complex_coeffs \<Rightarrow>
             from_array \<lparr>dtype = complex128, elems = complex_coeffs\<rparr>
               (normalization s) (csphase s) False))"

text \<open>
  \<open>SHComplexCoeffs._make_real\<close>. With \<open>check\<close>, each degree is tested for the symmetry
  of a real field, and the first failure raises RuntimeError. The result is built with
  the default \<open>copy=True\<close>.
\<close>

definition check_real_field :: "complex list list list \<Rightarrow> nat list \<Rightarrow> py_error + unit" where
  "check_real_field c degrees =
     for_loop
       (\<lambda>l u.
          case get3 c 0 l 0 of
            Inl e \<Rightarrow> Inl e
          | Inr c0 \<Rightarrow>
              if c0 \<noteq> cnj c0 then Inl RuntimeError
              else
                for_loop
                  (\<lambda>m u.
                     case get3 c 0 l m of
                       Inl e \<Rightarrow> Inl e
                     | Inr cp \<Rightarrow>
                         (case get3 c 1 l m of
                            Inl e \<Rightarrow> Inl e
                          | Inr cm \<Rightarrow>
                              if m mod 2 = 1
                              then (if cp \<noteq> - cnj cm then Inl RuntimeError else Inr u)
                              else (if cp \<noteq> cnj cm then Inl RuntimeError else Inr u)))
                  [1..<l + 1] u)
       degrees ()"

definition SHComplexCoeffs__make_real ::
  "(ndarray \<Rightarrow> ndarray) \<Rightarrow> SHCoeffs \<Rightarrow> bool \<Rightarrow> py_error + SHCoeffs" where
  "SHComplexCoeffs__make_real SHctor s check =
     (case (if check then check_real_field (elems (coeffs s)) (arange (lmax s + 1)) else Inr ()) of
        Inl e \<Rightarrow> Inl e
      | Inr _ \<Rightarrow>
          (let c = elems (coeffs s); n = nat (lmax s + 1) in
           if lmax s + 1 < 0 then Inl ValueError
           else if length c < 1 then Inl IndexError
           else if \<not> is_square (c ! 0) n then Inl ValueError
           else
             (let coeffs_rc = \<lparr>dtype = float64,
                     elems = [map (map (\<lambda>x. complex_of_real (Re x))) (c ! 0),
                              map (map (\<lambda>x. complex_of_real (Im x))) (c ! 0)]\<rparr>;
                  real_coeffs = SHctor coeffs_rc
              in from_array real_coeffs (normalization s) (csphase s) True)))"

text \<open>
  \<open>convert\<close>. An instance of \<open>SHRealCoeffs\<close> has no method \<open>_make_real\<close>, and one of
  \<open>SHComplexCoeffs\<close> no method \<open>_make_complex\<close>.
\<close>

definition convert ::
  "(ndarray \<Rightarrow> ndarray) \<Rightarrow> (ndarray \<Rightarrow> ndarray) \<Rightarrow> SHCoeffs \<Rightarrow>
   string option \<Rightarrow> int option \<Rightarrow> int option \<Rightarrow> string option \<Rightarrow> bool \<Rightarrow> py_error + SHCoeffs" where
  "convert SHrtoc SHctor s nrm_opt cs_opt lm_opt kind_opt check =
     (let nrm = (case nrm_opt of None \<Rightarrow> normalization s | Some n \<Rightarrow> n);
          cs = (case cs_opt of None \<Rightarrow> csphase s | Some c \<Rightarrow> c);
          lm = (case lm_opt of None \<Rightarrow> lmax s | Some l \<Rightarrow> l);
          knd = (case kind_opt of None \<Rightarrow> kind s | Some k \<Rightarrow> k)
      in
      if lower nrm \<notin> set [''4pi'', ''ortho'', ''schmidt''] then Inl ValueError
      else if cs \<noteq> 1 \<and> cs \<noteq> - 1 then Inl ValueError
      else
        (case
           (if knd \<noteq> kind s then
              (case
                 (if knd = ''complex'' then
                    (if kind s = ''real'' then SHRealCoeffs__make_complex SHrtoc s
                     else Inl AttributeError)
                  else
                    (if kind s = ''complex'' then SHComplexCoeffs__make_real SHctor s check
                     else Inl AttributeError))
               of
                 Inl e \<Rightarrow> Inl e
               | Inr temp \<Rightarrow> to_array temp (Some (lower nrm)) (Some cs) (Some lm))
            else to_array s (Some (lower nrm)) (Some cs) (Some lm))
         of
           Inl e \<Rightarrow> Inl e
         | Inr a \<Rightarrow> from_array a (lower nrm) cs False))"

text \<open>
  Modelled from the spec: the backend primitive \<open>SHrtoc\<close> (absent from the Python
  source), by the spec's real to complex mapping: \<open>c(l,0) = a(l,0)\<close>, real valued, and
  \<open>c(l,m) = (a(l,m) - i b(l,m)) / 2\<close> for \<open>0 < m \<le> l\<close>. Plane 0 of the result holds the
  real parts and plane 1 the imaginary parts.
\<close>

definition SHrtoc_spec :: "ndarray \<Rightarrow> ndarray" where
  "SHrtoc_spec a =
     (let c = elems a; n = shape1 c in
      \<lparr>dtype = float64,
       elems =
         [map (\<lambda>l. map (\<lambda>m. if m = 0 then c ! 0 ! l ! 0
                              else if m \<le> l then c ! 0 ! l ! m / 2 else 0) [0..<n]) [0..<n],
          map (\<lambda>l. map (\<lambda>m. if 0 < m \<and> m \<le> l then - (c ! 1 ! l ! m) / 2 else 0) [0..<n]) [0..<n]]\<rparr>)"

subsection \<open>The invariant of the mask, and the conversion factors\<close>

text \<open>
  The invariant as the spec words it: every entry of \<open>coefficients\<close> at an index where
  \<open>mask\<close> is false is zero.
\<close>

definition outside_mask_zero :: "SHCoeffs \<Rightarrow> bool" where
  "outside_mask_zero s =
     list_all2 (list_all2 (list_all2 (\<lambda>b v. b \<or> v = 0))) (mask_arr s) (elems (coeffs s))"

text \<open>
  The conversion factors as the spec lists them, by degree \<open>l\<close>: from the first
  normalization to the second, an entry is multiplied by \<open>conversion_factor\<close>. The
  factor between 4pi and orthonormal does not depend on the degree and the source
  applies it to the whole array; the others are applied to the orders \<open>m \<le> l\<close>
  (\<open>factor_applies\<close>). A change of \<open>csphase\<close> negates the entries of odd order
  (\<open>phase_factor\<close>).
\<close>

definition conversion_factor :: "string \<Rightarrow> string \<Rightarrow> nat \<Rightarrow> real" where
  "conversion_factor n1 n2 l =
     (if n1 = n2 then 1
      else if n1 = ''4pi'' \<and> n2 = ''schmidt'' then sqrt (2 * real l + 1)
      else if n1 = ''4pi'' \<and> n2 = ''ortho'' then sqrt (4 * pi)
      else if n1 = ''schmidt'' \<and> n2 = ''4pi'' then inverse (sqrt (2 * real l + 1))
      else if n1 = ''schmidt'' \<and> n2 = ''ortho'' then sqrt (4 * pi / (2 * real l + 1))
      else if n1 = ''ortho'' \<and> n2 = ''4pi'' then inverse (sqrt (4 * pi))
      else if n1 = ''ortho'' \<and> n2 = ''schmidt'' then sqrt ((2 * real l + 1) / (4 * pi))
      else 1)"

definition factor_applies :: "string \<Rightarrow> string \<Rightarrow> nat \<Rightarrow> nat \<Rightarrow> bool" where
  "factor_applies n1 n2 l m =
     (m \<le> l \<or> (n1 = ''4pi'' \<and> n2 = ''ortho'') \<or> (n1 = ''ortho'' \<and> n2 = ''4pi''))"

definition phase_factor :: "int \<Rightarrow> int \<Rightarrow> nat \<Rightarrow> real" where
  "phase_factor c1 c2 m = (if c1 \<noteq> c2 \<and> m mod 2 = 1 then - 1 else 1)"

text \<open>The entry of the converted array, from the entry \<open>x\<close> of degree \<open>l\<close> and order \<open>m\<close>.\<close>

definition converted_entry :: "string \<Rightarrow> int \<Rightarrow> string \<Rightarrow> int \<Rightarrow> nat \<Rightarrow> nat \<Rightarrow> complex \<Rightarrow> complex" where
  "converted_entry n1 c1 n2 c2 l m x =
     phase_factor c1 c2 m *\<^sub>R
       (if factor_applies n1 n2 l m then conversion_factor n1 n2 l *\<^sub>R x else x)"

subsection \<open>Arithmetic operators\<close>

text \<open>
  The operand of an operator is another coefficient set, a scalar, or anything else.
\<close>

datatype operand = Coeffs SHCoeffs | Scalar complex | Other

text \<open>
  \<^verbatim>\<open>
  coeffs = _np.zeros([2, self.lmax+1, self.lmax+1])
  coeffs[self.mask] = (self.coeffs[self.mask] + other.coeffs[self.mask])
  return SHCoeffs.from_array(coeffs, csphase=self.csphase,
                             normalization=self.normalization)
  \<close>
  \<open>numpy.zeros\<close> without a dtype is a \<open>float64\<close> array, so each value is cast to
  \<open>float64\<close> when stored. A boolean index must have the shape of the array it indexes
  (IndexError otherwise). The eight operators share this body, with their own
  elementwise operation \<open>f\<close>.
\<close>

definition masked_assign ::
  "bool list list list \<Rightarrow> complex list list list \<Rightarrow> complex list list list" where
  "masked_assign msk vals =
     map2 (map2 (map2 (\<lambda>b v. if b then cast float64 v else 0))) msk vals"

definition elementwise ::
  "(complex \<Rightarrow> complex \<Rightarrow> complex) \<Rightarrow> complex list list list \<Rightarrow> complex list list list \<Rightarrow>
   complex list list list" where
  "elementwise f a b = map2 (map2 (map2 f)) a b"

definition binary_operator :: "(complex \<Rightarrow> complex \<Rightarrow> complex) \<Rightarrow> SHCoeffs \<Rightarrow> operand \<Rightarrow> py_error + SHCoeffs" where
  "binary_operator f s other =
     (let n = nat (lmax s + 1) in
      case other of
        Coeffs other \<Rightarrow>
          if normalization s = normalization other \<and> csphase s = csphase other
             \<and> kind s = kind other
          then
            (if lmax s + 1 < 0 then Inl ValueError
             else if \<not> (has_shape (mask_arr s) 2 n n \<and> has_shape (elems (coeffs s)) 2 n n
                        \<and> has_shape (elems (coeffs other)) 2 n n) then Inl IndexError
             else
               from_array
                 \<lparr>dtype = float64,
                  elems = masked_assign (mask_arr s)
                            (elementwise f (elems (coeffs s)) (elems (coeffs other)))\<rparr>
                 (normalization s) (csphase s) True)
          else Inl ValueError
      | Scalar c \<Rightarrow>
          if lmax s + 1 < 0 then Inl ValueError
          else if \<not> (has_shape (mask_arr s) 2 n n \<and> has_shape (elems (coeffs s)) 2 n n)
            then Inl IndexError
          else
            from_array
              \<lparr>dtype = float64,
               elems = masked_assign (mask_arr s) (map (map (map (\<lambda>x. f x c))) (elems (coeffs s)))\<rparr>
              (normalization s) (csphase s) True
      | Other \<Rightarrow> Inl NotImplementedError)"

text \<open>
  Division by a zero entry gives \<open>inf\<close> or \<open>nan\<close> in numpy (a warning, no exception);
  these are not numbers of HOL, where \<open>x / 0 = 0\<close>. The model of the two division
  operators has the source's entries where the divisor is not zero, and nothing below
  depends on the others.
\<close>

definition op_add :: "SHCoeffs \<Rightarrow> operand \<Rightarrow> py_error + SHCoeffs" where
  "op_add = binary_operator (\<lambda>x y. x + y)"

definition op_radd :: "SHCoeffs \<Rightarrow> operand \<Rightarrow> py_error + SHCoeffs" where
  "op_radd s other = op_add s other"

definition op_sub :: "SHCoeffs \<Rightarrow> operand \<Rightarrow> py_error + SHCoeffs" where
  "op_sub = binary_operator (\<lambda>x y. x - y)"

definition op_rsub :: "SHCoeffs \<Rightarrow> operand \<Rightarrow> py_error + SHCoeffs" where
  "op_rsub = binary_operator (\<lambda>x y. y - x)"

definition op_mul :: "SHCoeffs \<Rightarrow> operand \<Rightarrow> py_error + SHCoeffs" where
  "op_mul = binary_operator (\<lambda>x y. x * y)"

definition op_rmul :: "SHCoeffs \<Rightarrow> operand \<Rightarrow> py_error + SHCoeffs" where
  "op_rmul s other = op_mul s other"

definition op_div :: "SHCoeffs \<Rightarrow> operand \<Rightarrow> py_error + SHCoeffs" where
  "op_div = binary_operator (\<lambda>x y. x / y)"

definition op_truediv :: "SHCoeffs \<Rightarrow> operand \<Rightarrow> py_error + SHCoeffs" where
  "op_truediv = binary_operator (\<lambda>x y. x / y)"

subsection \<open>Spectra\<close>

definition degrees :: "SHCoeffs \<Rightarrow> nat list" where
  "degrees s = arange (lmax s + 1)"

text \<open>
  \<open>spectrum /= v\<close> and \<open>spectrum *= v\<close> on arrays of rank 1: an in-place operation
  keeps the shape of its left operand, so \<open>v\<close> has its length or length 1 (ValueError
  otherwise).
\<close>

definition inplace :: "(real \<Rightarrow> real \<Rightarrow> real) \<Rightarrow> real list \<Rightarrow> real list \<Rightarrow> py_error + real list" where
  "inplace f sp v =
     (if length v = length sp then Inr (map2 f sp v)
      else if length v = 1 then Inr (map (\<lambda>x. f x (hd v)) sp)
      else Inl ValueError)"

text \<open>
  \<open>SHRealCoeffs._spectrum\<close> and \<open>SHComplexCoeffs._spectrum\<close> have the same body, up to
  the backend primitive that gives the sum of the squared magnitudes per degree
  (\<open>SHPowerSpectrum\<close> and \<open>SHPowerSpectrumC\<close>), the argument \<open>power_spectrum\<close>.
\<close>

definition coeffs__spectrum ::
  "(ndarray \<Rightarrow> real list) \<Rightarrow> SHCoeffs \<Rightarrow> string \<Rightarrow> string \<Rightarrow> real \<Rightarrow> py_error + real list" where
  "coeffs__spectrum power_spectrum s convention unit base =
     (case
        (if lower convention = ''l2norm'' then Inr (power_spectrum (coeffs s))
         else if lower convention = ''power'' \<or> lower convention = ''energy'' then
           (if normalization s = ''4pi'' then Inr (power_spectrum (coeffs s))
            else if normalization s = ''schmidt'' then
              inplace (\<lambda>x y. x / y) (power_spectrum (coeffs s))
                (map (\<lambda>l. 2 * real l + 1) (degrees s))
            else if normalization s = ''ortho'' then
              Inr (map (\<lambda>x. x / (4 * pi)) (power_spectrum (coeffs s)))
            else Inl ValueError)
         else Inl ValueError)
      of
        Inl e \<Rightarrow> Inl e
      | Inr sp \<Rightarrow>
          (let sp = (if lower convention = ''energy'' then map (\<lambda>x. x * (4 * pi)) sp else sp) in
           if lower unit = ''per_l'' then Inr sp
           else if lower unit = ''per_lm'' then
             inplace (\<lambda>x y. x / y) sp (map (\<lambda>l. 2 * real l + 1) (degrees s))
           else if lower unit = ''per_dlogl'' then
             inplace (\<lambda>x y. x * y) sp (map (\<lambda>l. real l * ln base) (degrees s))
           else Inl ValueError))"

definition SHRealCoeffs__spectrum ::
  "(ndarray \<Rightarrow> real list) \<Rightarrow> SHCoeffs \<Rightarrow> string \<Rightarrow> string \<Rightarrow> real \<Rightarrow> py_error + real list" where
  "SHRealCoeffs__spectrum SHPowerSpectrum = coeffs__spectrum SHPowerSpectrum"

definition SHComplexCoeffs__spectrum ::
  "(ndarray \<Rightarrow> real list) \<Rightarrow> SHCoeffs \<Rightarrow> string \<Rightarrow> string \<Rightarrow> real \<Rightarrow> py_error + real list" where
  "SHComplexCoeffs__spectrum SHPowerSpectrumC = coeffs__spectrum SHPowerSpectrumC"

definition spectrum ::
  "(ndarray \<Rightarrow> real list) \<Rightarrow> (ndarray \<Rightarrow> real list) \<Rightarrow> SHCoeffs \<Rightarrow> string \<Rightarrow> string \<Rightarrow> real \<Rightarrow>
   py_error + real list" where
  "spectrum SHPowerSpectrum SHPowerSpectrumC s convention unit base =
     (if kind s = ''real'' then SHRealCoeffs__spectrum SHPowerSpectrum s convention unit base
      else if kind s = ''complex'' then
        SHComplexCoeffs__spectrum SHPowerSpectrumC s convention unit base
      else Inl AttributeError)"

subsection \<open>Rotation\<close>

text \<open>
  \<open>SHRealCoeffs._rotate\<close>. The backend gives the rotation matrix (\<open>djpi2\<close>) and rotates
  real coefficients that are 4pi-normalized with \<open>csphase = 1\<close> (\<open>SHRotateRealCoef\<close>).
  When the instance has another normalization or phase, the source goes on with
  \<^verbatim>\<open>temp = SHCoeffs.from_array(coeffs, kind='real')\<close>
  and \<open>from_array(self, coeffs, normalization='4pi', csphase=1, copy=True)\<close> has no
  parameter \<open>kind\<close>: the call raises TypeError.
\<close>

definition SHRealCoeffs__rotate ::
  "(int \<Rightarrow> 'dj) \<Rightarrow> (ndarray \<Rightarrow> real list \<Rightarrow> 'dj \<Rightarrow> ndarray) \<Rightarrow> SHCoeffs \<Rightarrow> real list \<Rightarrow> 'dj option \<Rightarrow>
   py_error + SHCoeffs" where
  "SHRealCoeffs__rotate djpi2 SHRotateRealCoef s angles dj_matrix =
     (let dj = (case dj_matrix of None \<Rightarrow> djpi2 (lmax s + 1) | Some d \<Rightarrow> d) in
      case to_array s (Some ''4pi'') (Some 1) None of
        Inl e \<Rightarrow> Inl e
      | Inr a \<Rightarrow>
          (let rotated = SHRotateRealCoef a angles dj in
           if normalization s \<noteq> ''4pi'' \<or> csphase s \<noteq> 1 then Inl TypeError
           else from_array rotated ''4pi'' 1 False))"

definition radians :: "real \<Rightarrow> real" where
  "radians x = x * pi / 180"

text \<open>
  \<open>rotate\<close> on an instance of \<open>SHRealCoeffs\<close>. (On an instance of
  \<open>SHComplexCoeffs\<close> the method is a chain of backend transforms between grids and
  coefficients, with no computation of its own.)
\<close>

definition rotate_coeffs ::
  "(int \<Rightarrow> 'dj) \<Rightarrow> (ndarray \<Rightarrow> real list \<Rightarrow> 'dj \<Rightarrow> ndarray) \<Rightarrow> SHCoeffs \<Rightarrow>
   real \<Rightarrow> real \<Rightarrow> real \<Rightarrow> bool \<Rightarrow> 'dj option \<Rightarrow> py_error + SHCoeffs" where
  "rotate_coeffs djpi2 SHRotateRealCoef s alpha beta gamma in_degrees dj_matrix =
     (let angles = (if in_degrees then [radians alpha, radians beta, radians gamma]
                    else [alpha, beta, gamma])
      in SHRealCoeffs__rotate djpi2 SHRotateRealCoef s angles dj_matrix)"

section \<open>Grid classes\<close>

text \<open>\<open>str.upper()\<close> on ASCII strings.\<close>

definition upper_char :: "char \<Rightarrow> char" where
  "upper_char c =
     (case map_of (zip ''abcdefghijklmnopqrstuvwxyz'' ''ABCDEFGHIJKLMNOPQRSTUVWXYZ'') c of
        None \<Rightarrow> c | Some d \<Rightarrow> d)"

definition upper :: "string \<Rightarrow> string" where
  "upper s = map upper_char s"

type_synonym ndarray2 = "complex list list nd"

text \<open>\<open>array.shape\<close> of a matrix.\<close>

definition shape_of :: "ndarray2 \<Rightarrow> int \<times> int" where
  "shape_of a =
     (int (length (elems a)), (case elems a of [] \<Rightarrow> 0 | r # _ \<Rightarrow> int (length r)))"

record SHGrid =
  data :: ndarray2
  nlat :: int
  nlon :: int
  lmax :: int
  sampling :: "int option"
  grid :: string
  kind :: string
  zeros :: "real list option"
  weights :: "real list option"

text \<open>
  \<open>DHRealGrid.__init__\<close> and \<open>DHComplexGrid.__init__\<close> differ in the constant
  \<open>kind\<close> only. \<open>int(self.nlat / 2 - 1)\<close> is taken after the test that \<open>nlat\<close> is
  even, so the division is exact. A copy of the array has the value of the array.
\<close>

definition DH_init :: "string \<Rightarrow> ndarray2 \<Rightarrow> bool \<Rightarrow> py_error + SHGrid" where
  "DH_init knd a copy =
     (let (n_lat, n_lon) = shape_of a in
      if n_lat mod 2 \<noteq> 0 then Inl ValueError
      else if n_lon = 2 * n_lat then
        Inr \<lparr>data = a, nlat = n_lat, nlon = n_lon, lmax = n_lat div 2 - 1, sampling = Some 2,
             grid = ''DH'', kind = knd, zeros = None, weights = None\<rparr>
      else if n_lat = n_lon then
        Inr \<lparr>data = a, nlat = n_lat, nlon = n_lon, lmax = n_lat div 2 - 1, sampling = Some 1,
             grid = ''DH'', kind = knd, zeros = None, weights = None\<rparr>
      else Inl ValueError)"

definition DHRealGrid_init :: "ndarray2 \<Rightarrow> bool \<Rightarrow> py_error + SHGrid" where
  "DHRealGrid_init = DH_init ''real''"

definition DHComplexGrid_init :: "ndarray2 \<Rightarrow> bool \<Rightarrow> py_error + SHGrid" where
  "DHComplexGrid_init = DH_init ''complex''"

text \<open>
  \<open>GLQRealGrid.__init__\<close> and \<open>GLQComplexGrid.__init__\<close>; the backend's \<open>SHGLQ\<close>
  gives the nodes and weights when the caller gives none.
\<close>

definition GLQ_init ::
  "(int \<Rightarrow> real list \<times> real list) \<Rightarrow> string \<Rightarrow> ndarray2 \<Rightarrow> real list option \<Rightarrow> real list option \<Rightarrow>
   bool \<Rightarrow> py_error + SHGrid" where
  "GLQ_init SHGLQ knd a zeros_opt weights_opt copy =
     (let (n_lat, n_lon) = shape_of a;
          lm = n_lat - 1
      in
      if n_lat \<noteq> lm + 1 \<or> n_lon \<noteq> 2 * lm + 1 then Inl ValueError
      else
        (let (zs, ws) = (if zeros_opt = None \<or> weights_opt = None then SHGLQ lm
                         else (the zeros_opt, the weights_opt))
         in Inr \<lparr>data = a, nlat = n_lat, nlon = n_lon, lmax = lm, sampling = None,
                 grid = ''GLQ'', kind = knd, zeros = Some zs, weights = Some ws\<rparr>))"

definition GLQRealGrid_init ::
  "(int \<Rightarrow> real list \<times> real list) \<Rightarrow> ndarray2 \<Rightarrow> real list option \<Rightarrow> real list option \<Rightarrow> bool \<Rightarrow>
   py_error + SHGrid" where
  "GLQRealGrid_init SHGLQ = GLQ_init SHGLQ ''real''"

definition GLQComplexGrid_init ::
  "(int \<Rightarrow> real list \<times> real list) \<Rightarrow> ndarray2 \<Rightarrow> real list option \<Rightarrow> real list option \<Rightarrow> bool \<Rightarrow>
   py_error + SHGrid" where
  "GLQComplexGrid_init SHGLQ = GLQ_init SHGLQ ''complex''"

text \<open>
  \<open>SHGrid.from_array\<close>: the first subclass, in the order of their definition, that
  answers to the kind of the array and to \<open>grid\<close> builds the instance; \<open>None\<close> when
  there is none (\<open>grid\<close> is compared as it was given, not in upper case).
\<close>

definition SHGrid_from_array ::
  "(int \<Rightarrow> real list \<times> real list) \<Rightarrow> ndarray2 \<Rightarrow> string \<Rightarrow> bool \<Rightarrow> py_error + SHGrid option" where
  "SHGrid_from_array SHGLQ a grd copy =
     (let knd = (if dtype a = complex128 then ''complex'' else ''real'') in
      if upper grd \<notin> set [''DH'', ''GLQ''] then Inl ValueError
      else if knd = ''real'' \<and> grd = ''DH'' then map_sum id Some (DHRealGrid_init a copy)
      else if knd = ''complex'' \<and> grd = ''DH'' then map_sum id Some (DHComplexGrid_init a copy)
      else if knd = ''real'' \<and> grd = ''GLQ'' then
        map_sum id Some (GLQRealGrid_init SHGLQ a None None copy)
      else if knd = ''complex'' \<and> grd = ''GLQ'' then
        map_sum id Some (GLQComplexGrid_init SHGLQ a None None copy)
      else Inr None)"

text \<open>Arrays of zeros of the shapes (4, 4), (3, 5) and (3, 4).\<close>

definition grid_4_4 :: ndarray2 where
  "grid_4_4 = \<lparr>dtype = float64, elems = [[0, 0, 0, 0], [0, 0, 0, 0], [0, 0, 0, 0], [0, 0, 0, 0]]\<rparr>"

definition grid_3_5 :: ndarray2 where
  "grid_3_5 = \<lparr>dtype = float64, elems = [[0, 0, 0, 0, 0], [0, 0, 0, 0, 0], [0, 0, 0, 0, 0]]\<rparr>"

definition grid_3_4 :: ndarray2 where
  "grid_3_4 = \<lparr>dtype = float64, elems = [[0, 0, 0, 0], [0, 0, 0, 0], [0, 0, 0, 0]]\<rparr>"

section \<open>Localization windows\<close>

text \<open>
  The attributes of a window bank that \<open>couplingmatrix\<close> reads. \<open>tapers\<close> is a matrix
  with one column per window. (The attributes that only the rotation of cap windows
  uses, such as \<open>theta\<close>, \<open>clat\<close>, \<open>clon\<close>, \<open>orders\<close> and \<open>nwinrot\<close>, are left out.)
\<close>

record SHWindow =
  kind :: string
  lwin :: int
  nwin :: int
  tapers :: "real list list"
  eigenvalues :: "real list"
  weights :: "real list option"

text \<open>
  The backend's \<open>SHMTCouplingMatrix(lmax, tapers_power, k=..., taper_wt=...)\<close>. The last
  argument is \<open>None\<close> when the keyword \<open>taper_wt\<close> is not passed and \<open>Some w\<close> when
  it is passed with the value \<open>w\<close> (itself \<open>None\<close> or an array).
\<close>

type_synonym coupling_backend =
  "int \<Rightarrow> real list list \<Rightarrow> int \<Rightarrow> real list option option \<Rightarrow> real list list"

definition SHWindowCap__couplingmatrix ::
  "coupling_backend \<Rightarrow> SHWindow \<Rightarrow> int \<Rightarrow> int option \<Rightarrow> real list option \<Rightarrow>
   py_error + real list list" where
  "SHWindowCap__couplingmatrix SHMTCouplingMatrix w lm nwin_opt weights_opt =
     (let k = (case nwin_opt of None \<Rightarrow> nwin w | Some n \<Rightarrow> n);
          wts = (case weights_opt of None \<Rightarrow> SHWindow.weights w | Some x \<Rightarrow> Some x)
      in
      if wts = None then
        Inr (SHMTCouplingMatrix lm (map (map (\<lambda>x. x ^ 2)) (tapers w)) k None)
      else
        Inr (SHMTCouplingMatrix lm (map (map (\<lambda>x. x ^ 2)) (tapers w)) k
               (Some (SHWindow.weights w))))"

text \<open>The number of columns of a matrix, and \<open>tapers[:, i]\<close> with numpy's indexing.\<close>

definition ncols :: "'a list list \<Rightarrow> nat" where
  "ncols t = (case t of [] \<Rightarrow> 0 | r # _ \<Rightarrow> length r)"

definition column :: "'a list list \<Rightarrow> int \<Rightarrow> py_error + 'a list" where
  "column t i =
     (case wrap_index (ncols t) i of
        None \<Rightarrow> Inl IndexError
      | Some j \<Rightarrow> Inr (map (\<lambda>r. r ! j) t))"

text \<open>\<open>SHWindowMask._to_array\<close>; the backend's \<open>SHVectorToCilm\<close> unpacks a taper.\<close>

definition SHWindowMask__to_array ::
  "(real list \<Rightarrow> ndarray) \<Rightarrow> SHWindow \<Rightarrow> int \<Rightarrow> string \<Rightarrow> int \<Rightarrow> py_error + ndarray" where
  "SHWindowMask__to_array SHVectorToCilm w itaper nrm cs =
     (case column (tapers w) itaper of
        Inl e \<Rightarrow> Inl e
      | Inr v \<Rightarrow>
          (let a = SHVectorToCilm v in
           case
             (if nrm = ''schmidt'' then
                for_loop (\<lambda>l. row_op l (\<lambda>x. sqrt (2 * real l + 1) *\<^sub>R x))
                  (arange (lwin w + 1)) (elems a)
              else if nrm = ''ortho'' then
                Inr (map (map (map (\<lambda>x. sqrt (4 * pi) *\<^sub>R x))) (elems a))
              else Inr (elems a))
           of
             Inl e \<Rightarrow> Inl e
           | Inr c1 \<Rightarrow>
               (case
                  (if cs = - 1 then
                     for_loop (\<lambda>m c. if m mod 2 = 1 then col_op m uminus c else Inr c)
                       (arange (lwin w + 1)) c1
                   else Inr c1)
                of
                  Inl e \<Rightarrow> Inl e
                | Inr c2 \<Rightarrow> Inr (a\<lparr>elems := c2\<rparr>))))"

text \<open>
  \<open>SHWindow.to_array\<close> on an instance of \<open>SHWindowMask\<close>. The message of the first
  ValueError is formatted from \<open>output_normalization\<close>, a name that the method does not
  bind: building it raises NameError.
\<close>

definition SHWindowMask_to_array ::
  "(real list \<Rightarrow> ndarray) \<Rightarrow> SHWindow \<Rightarrow> int \<Rightarrow> string \<Rightarrow> int \<Rightarrow> py_error + ndarray" where
  "SHWindowMask_to_array SHVectorToCilm w itaper nrm cs =
     (if lower nrm \<notin> set [''4pi'', ''ortho'', ''schmidt''] then Inl NameError
      else if cs \<noteq> 1 \<and> cs \<noteq> - 1 then Inl ValueError
      else SHWindowMask__to_array SHVectorToCilm w itaper (lower nrm) cs)"

text \<open>
  \<open>tapers_power[:, i] = v\<close>: \<open>v\<close> has one entry per row, or one entry in all.
\<close>

definition set_column :: "real list list \<Rightarrow> nat \<Rightarrow> real list \<Rightarrow> py_error + real list list" where
  "set_column t i v =
     (if length v = length t then Inr (map2 (\<lambda>r x. r[i := x]) t v)
      else if length v = 1 then Inr (map (\<lambda>r. r[i := hd v]) t)
      else Inl ValueError)"

definition SHWindowMask__couplingmatrix ::
  "coupling_backend \<Rightarrow> (real list \<Rightarrow> ndarray) \<Rightarrow> (ndarray \<Rightarrow> real list) \<Rightarrow> SHWindow \<Rightarrow> int \<Rightarrow>
   int option \<Rightarrow> real list option \<Rightarrow> py_error + real list list" where
  "SHWindowMask__couplingmatrix SHMTCouplingMatrix SHVectorToCilm SHPowerSpectrum w lm
       nwin_opt weights_opt =
     (let k = (case nwin_opt of None \<Rightarrow> nwin w | Some n \<Rightarrow> n);
          wts = (case weights_opt of None \<Rightarrow> SHWindow.weights w | Some x \<Rightarrow> Some x)
      in
      if lwin w + 1 < 0 \<or> k < 0 then Inl ValueError
      else
        (case
           for_loop
             (\<lambda>i tp.
                case SHWindowMask_to_array SHVectorToCilm w (int i) ''4pi'' 1 of
                  Inl e \<Rightarrow> Inl e
                | Inr a \<Rightarrow> set_column tp i (SHPowerSpectrum a))
             (arange k)
             (replicate (nat (lwin w + 1)) (replicate (nat k) 0))
         of
           Inl e \<Rightarrow> Inl e
         | Inr tapers_power \<Rightarrow>
             if wts = None then Inr (SHMTCouplingMatrix lm tapers_power k None)
             else Inr (SHMTCouplingMatrix lm tapers_power k (Some (SHWindow.weights w)))))"

text \<open>
  \<open>SHWindow.couplingmatrix\<close>; the method \<open>_couplingmatrix\<close> is that of the class of
  the instance. \<open>cmatrix[:k, :]\<close> keeps the first \<open>k\<close> rows.
\<close>

definition couplingmatrix ::
  "coupling_backend \<Rightarrow> (real list \<Rightarrow> ndarray) \<Rightarrow> (ndarray \<Rightarrow> real list) \<Rightarrow> SHWindow \<Rightarrow> int \<Rightarrow>
   int option \<Rightarrow> real list option \<Rightarrow> string \<Rightarrow> py_error + real list list" where
  "couplingmatrix SHMTCouplingMatrix SHVectorToCilm SHPowerSpectrum w lm nwin_opt weights_opt mode =
     (let cm =
            (if SHWindow.kind w = ''cap'' then
               SHWindowCap__couplingmatrix SHMTCouplingMatrix w lm nwin_opt weights_opt
             else if SHWindow.kind w = ''mask'' then
               SHWindowMask__couplingmatrix SHMTCouplingMatrix SHVectorToCilm SHPowerSpectrum
                 w lm nwin_opt weights_opt
             else Inl AttributeError)
      in
      if (case weights_opt of
            None \<Rightarrow> False
          | Some ws \<Rightarrow>
              (case nwin_opt of
                 Some n \<Rightarrow> int (length ws) \<noteq> n
               | None \<Rightarrow> int (length ws) \<noteq> nwin w))
      then Inl ValueError
      else if mode = ''full'' then cm
      else if mode = ''same'' then map_sum id (slice_to (lm + 1)) cm
      else if mode = ''valid'' then map_sum id (slice_to (lm - lwin w + 1)) cm
      else Inl ValueError)"

text \<open>
  Modelled from the spec: the backend primitive \<open>SHMTCouplingMatrix\<close> (absent from the
  Python source), as far as its shape goes. For an input spectrum of \<open>lmax + 1\<close>
  degrees and windows of bandwidth \<open>lwin\<close>, whose power spectra are the \<open>lwin + 1\<close>
  rows of \<open>tapers_power\<close>, the matrix has \<open>lmax + lwin + 1\<close> rows and \<open>lmax + 1\<close>
  columns. The entries are not modelled (zeros).
\<close>

definition SHMTCouplingMatrix_spec :: coupling_backend where
  "SHMTCouplingMatrix_spec lm tapers_power k taper_wt =
     replicate (nat (lm + int (length tapers_power))) (replicate (nat (lm + 1)) 0)"

text \<open>A cap window bank of bandwidth 3 with one window, and no weights.\<close>

definition cap_window_3 :: SHWindow where
  "cap_window_3 =
     \<lparr>kind = ''cap'', lwin = 3, nwin = 1, tapers = [[1], [0], [0], [0]], eigenvalues = [1],
      weights = None\<rparr>"

text \<open>
  A cap window bank of bandwidth 1 with two windows and stored weights, and a stand-in
  for the backend that returns the weights it is given as the only row of its result.
\<close>

definition cap_window_weighted :: SHWindow where
  "cap_window_weighted =
     \<lparr>kind = ''cap'', lwin = 1, nwin = 2, tapers = [[1, 0], [0, 1]], eigenvalues = [1, 1],
      weights = Some [1, 2]\<rparr>"

definition echo_weights :: coupling_backend where
  "echo_weights lm tapers_power k taper_wt =
     (case taper_wt of Some (Some x) \<Rightarrow> [x] | _ \<Rightarrow> [])"

text \<open>
  A mask window bank of bandwidth 0 with its one window and a stored weight, and a
  stand-in for the backend's \<open>SHVectorToCilm\<close> at bandwidth 0, where the vector holds
  the coefficient of degree 0 and nothing else.
\<close>

definition mask_window_weighted :: SHWindow where
  "mask_window_weighted =
     \<lparr>kind = ''mask'', lwin = 0, nwin = 1, tapers = [[1]], eigenvalues = [1],
      weights = Some [2]\<rparr>"

definition unpack_degree_0 :: "real list \<Rightarrow> ndarray" where
  "unpack_degree_0 v =
     \<lparr>dtype = float64,
      elems = [[[case v of [] \<Rightarrow> 0 | x # _ \<Rightarrow> complex_of_real x]], [[0]]]\<rparr>"

section \<open>Sample values\<close>

text \<open>
  Modelled from the spec: the backend primitives \<open>SHPowerSpectrum\<close> and
  \<open>SHPowerSpectrumC\<close> (absent from the Python source), by the spec's l2-norm spectrum:
  the sum of the squared magnitudes of all stored coefficients at each degree.
\<close>

definition SHPowerSpectrum_spec :: "ndarray \<Rightarrow> real list" where
  "SHPowerSpectrum_spec a =
     map (\<lambda>l. sum_list (map (\<lambda>p. sum_list (map (\<lambda>x. (cmod x)\<^sup>2) (take (l + 1) (p ! l))))
                          (elems a)))
       [0..<shape1 (elems a)]"

text \<open>A real, 4pi-normalized coefficient set of maximum degree 1.\<close>

definition sample_real :: SHCoeffs where
  "sample_real =
     \<lparr>mask_arr = [[[True, False], [True, True]], [[False, False], [False, True]]],
      lmax = 1, kind = ''real'', normalization = ''4pi'', csphase = 1,
      coeffs = \<lparr>dtype = float64, elems = [[[3, 0], [1, 2]], [[0, 0], [0, 1]]]\<rparr>\<rparr>"

text \<open>
  A complex, 4pi-normalized coefficient set of maximum degree 0, as
  \<open>SHCoeffs.from_array\<close> builds it from the array \<open>[[[1+2j]], [[0]]]\<close>.
\<close>

definition sample_complex :: SHCoeffs where
  "sample_complex =
     \<lparr>mask_arr = [[[True]], [[False]]],
      lmax = 0, kind = ''complex'', normalization = ''4pi'', csphase = 1,
      coeffs = \<lparr>dtype = complex128, elems = [[[1 + 2 * \<i>]], [[0]]]\<rparr>\<rparr>"

text \<open>The zero-filled real coefficient set of maximum degree 2.\<close>

definition zeros_lmax2 :: SHCoeffs where
  "zeros_lmax2 =
     \<lparr>mask_arr = [[[True, False, False], [True, True, False], [True, True, True]],
                  [[False, False, False], [False, True, False], [False, True, True]]],
      lmax = 2, kind = ''real'', normalization = ''4pi'', csphase = 1,
      coeffs = \<lparr>dtype = float64,
                elems = [[[0, 0, 0], [0, 0, 0], [0, 0, 0]], [[0, 0, 0], [0, 0, 0], [0, 0, 0]]]\<rparr>\<rparr>"

text \<open>
  The real coefficient sets that \<open>SHCoeffs.from_array\<close> builds from the array
  \<open>[[[1.]], [[0.]]]\<close>, 4pi-normalized and Schmidt semi-normalized.
\<close>

definition unit_array :: ndarray where
  "unit_array = \<lparr>dtype = float64, elems = [[[1]], [[0]]]\<rparr>"

definition unit_real :: SHCoeffs where
  "unit_real =
     \<lparr>mask_arr = [[[True]], [[False]]], lmax = 0, kind = ''real'', normalization = ''4pi'',
      csphase = 1, coeffs = unit_array\<rparr>"

definition unit_schmidt :: SHCoeffs where
  "unit_schmidt =
     \<lparr>mask_arr = [[[True]], [[False]]], lmax = 0, kind = ''real'', normalization = ''schmidt'',
      csphase = 1, coeffs = unit_array\<rparr>"

text \<open>
  A stand-in for the backend's \<open>SHVectorToCilm\<close>, for window banks of the cap kind,
  whose \<open>couplingmatrix\<close> does not call it.
\<close>

definition unpack_zero :: "real list \<Rightarrow> ndarray" where
  "unpack_zero v = \<lparr>dtype = float64, elems = [[[0]], [[0]]]\<rparr>"

section \<open>Auxiliary facts\<close>

lemma lower_normalizations: "lower ''4pi'' = ''4pi''" "lower ''ortho'' = ''ortho''" "lower ''schmidt'' = ''schmidt''"
  by (simp_all add: lower_def lower_char_def)

lemma for_loop_invariant:
  assumes "\<And>i s. i \<in> set xs \<Longrightarrow> P s \<Longrightarrow> \<exists>s'. body i s = Inr s' \<and> P s'"
    and "P s"
  shows "\<exists>s'. for_loop body xs s = Inr s' \<and> P s'"
  using assms
proof (induction xs arbitrary: s)
  case Nil
  then show ?case by simp
next
  case (Cons x xs)
  from Cons.prems obtain s1 where s1: "body x s = Inr s1" "P s1"
    by (meson list.set_intros(1))
  have "\<exists>s'. for_loop body xs s1 = Inr s' \<and> P s'"
    by (rule Cons.IH) (use Cons.prems s1 in auto)
  with s1 show ?case by simp
qed

lemma has_shape_nth:
  "has_shape a n0 n1 n2 \<longleftrightarrow>
     length a = n0 \<and> (\<forall>i<n0. length (a ! i) = n1 \<and> (\<forall>l<n1. length (a ! i ! l) = n2))"
  by (auto simp: has_shape_def list_all_length)

lemma arr3_eqI:
  assumes "has_shape a n0 n1 n2" "has_shape b n0 n1 n2"
    and "\<And>i l m. i < n0 \<Longrightarrow> l < n1 \<Longrightarrow> m < n2 \<Longrightarrow> a ! i ! l ! m = b ! i ! l ! m"
  shows "a = b"
proof (rule nth_equalityI)
  show "length a = length b" using assms(1,2) by (simp add: has_shape_nth)
next
  fix i assume i: "i < length a"
  then have i0: "i < n0" using assms(1) by (simp add: has_shape_nth)
  show "a ! i = b ! i"
  proof (rule nth_equalityI)
    show "length (a ! i) = length (b ! i)" using assms(1,2) i0 by (simp add: has_shape_nth)
  next
    fix l assume "l < length (a ! i)"
    then have l1: "l < n1" using assms(1) i0 by (simp add: has_shape_nth)
    show "a ! i ! l = b ! i ! l"
    proof (rule nth_equalityI)
      show "length (a ! i ! l) = length (b ! i ! l)"
        using assms(1,2) i0 l1 by (simp add: has_shape_nth)
    next
      fix m assume "m < length (a ! i ! l)"
      then have "m < n2" using assms(1) i0 l1 by (simp add: has_shape_nth)
      then show "a ! i ! l ! m = b ! i ! l ! m" using assms(3) i0 l1 by simp
    qed
  qed
qed

lemma shape1_has_shape: "has_shape a n0 n1 n2 \<Longrightarrow> 0 < n0 \<Longrightarrow> shape1 a = n1"
  by (cases a) (auto simp: has_shape_def shape1_def)

lemma shape2_has_shape: "has_shape a n0 n1 n2 \<Longrightarrow> 0 < n0 \<Longrightarrow> 0 < n1 \<Longrightarrow> shape2 a = n2"
  by (cases a; cases "hd a") (auto simp: has_shape_def shape2_def)

lemma nth_list_update_any: "xs[i := x] ! j = (if i = j \<and> i < length xs then x else xs ! j)"
  by (cases "i < length xs") (auto simp: nth_list_update list_update_beyond)

lemma has_shape_set3: "has_shape a n0 n1 n2 \<Longrightarrow> has_shape (set3 a i l m v) n0 n1 n2"
  by (auto simp: has_shape_nth set3_def nth_list_update_any)

lemma nth_set3:
  "has_shape a n0 n1 n2 \<Longrightarrow> i' < n0 \<Longrightarrow> l' < n1 \<Longrightarrow> m' < n2 \<Longrightarrow>
   set3 a i l m v ! i' ! l' ! m' = (if i' = i \<and> l' = l \<and> m' = m then v else a ! i' ! l' ! m')"
  by (auto simp: has_shape_nth set3_def nth_list_update_any)

lemma length_map_prefix [simp]: "length (map_prefix k f row) = length row"
  by (simp add: map_prefix_def)

lemma nth_map_prefix:
  "m < length row \<Longrightarrow> map_prefix k f row ! m = (if m < k then f (row ! m) else row ! m)"
  by (auto simp: map_prefix_def nth_append)

lemma row_op_shape:
  assumes "has_shape a n0 n1 n2" "0 < n0" "l < n1"
  shows "\<exists>b. row_op l f a = Inr b \<and> has_shape b n0 n1 n2 \<and>
     (\<forall>i<n0. \<forall>l'<n1. \<forall>m<n2.
        b ! i ! l' ! m = (if l' = l \<and> m \<le> l then f (a ! i ! l' ! m) else a ! i ! l' ! m))"
  using assms
  by (auto simp: row_op_def shape1_has_shape has_shape_nth nth_list_update_any nth_map_prefix)

lemma col_op_shape:
  assumes "has_shape a n0 n1 n2" "0 < n0" "0 < n1" "m < n2"
  shows "\<exists>b. col_op m f a = Inr b \<and> has_shape b n0 n1 n2 \<and>
     (\<forall>i<n0. \<forall>l<n1. \<forall>m'<n2.
        b ! i ! l ! m' = (if m' = m then f (a ! i ! l ! m') else a ! i ! l ! m'))"
  using assms
  by (auto simp: col_op_def shape2_has_shape has_shape_nth nth_list_update_any)

lemma for_loop_append:
  "for_loop body (xs @ ys) s =
     (case for_loop body xs s of Inl e \<Rightarrow> Inl e | Inr s' \<Rightarrow> for_loop body ys s')"
  by (induction xs arbitrary: s) (auto split: sum.splits)

lemma row_loop:
  assumes "has_shape a n0 n1 n2" "0 < n0" "k \<le> n1"
  shows "\<exists>b. for_loop (\<lambda>l. row_op l (g l)) [0..<k] a = Inr b \<and> has_shape b n0 n1 n2 \<and>
     (\<forall>i<n0. \<forall>l<n1. \<forall>m<n2.
        b ! i ! l ! m = (if l < k \<and> m \<le> l then g l (a ! i ! l ! m) else a ! i ! l ! m))"
  using assms(3)
proof (induction k)
  case 0
  then show ?case using assms(1) by simp
next
  case (Suc k)
  then obtain b where b: "for_loop (\<lambda>l. row_op l (g l)) [0..<k] a = Inr b"
    "has_shape b n0 n1 n2"
    "\<forall>i<n0. \<forall>l<n1. \<forall>m<n2.
        b ! i ! l ! m = (if l < k \<and> m \<le> l then g l (a ! i ! l ! m) else a ! i ! l ! m)"
    by auto
  from Suc.prems have "k < n1" by simp
  from row_op_shape [OF b(2) assms(2) this, of "g k"] obtain c where c:
    "row_op k (g k) b = Inr c" "has_shape c n0 n1 n2"
    "\<forall>i<n0. \<forall>l'<n1. \<forall>m<n2.
        c ! i ! l' ! m = (if l' = k \<and> m \<le> k then g k (b ! i ! l' ! m) else b ! i ! l' ! m)"
    by blast
  have "for_loop (\<lambda>l. row_op l (g l)) [0..<Suc k] a = Inr c"
    by (simp add: for_loop_append b(1) c(1))
  moreover have "\<forall>i<n0. \<forall>l<n1. \<forall>m<n2.
        c ! i ! l ! m = (if l < Suc k \<and> m \<le> l then g l (a ! i ! l ! m) else a ! i ! l ! m)"
    using b(3) c(3) by (auto simp: less_Suc_eq)
  ultimately show ?case using c(2) by blast
qed

lemma col_loop:
  assumes "has_shape a n0 n1 n2" "0 < n0" "0 < n1" "k \<le> n2"
  shows "\<exists>b. for_loop (\<lambda>m c. if m mod 2 = 1 then col_op m f c else Inr c) [0..<k] a = Inr b
     \<and> has_shape b n0 n1 n2 \<and>
     (\<forall>i<n0. \<forall>l<n1. \<forall>m<n2.
        b ! i ! l ! m = (if m < k \<and> m mod 2 = 1 then f (a ! i ! l ! m) else a ! i ! l ! m))"
  using assms(4)
proof (induction k)
  case 0
  then show ?case using assms(1) by simp
next
  case (Suc k)
  then obtain b where b:
    "for_loop (\<lambda>m c. if m mod 2 = 1 then col_op m f c else Inr c) [0..<k] a = Inr b"
    "has_shape b n0 n1 n2"
    "\<forall>i<n0. \<forall>l<n1. \<forall>m<n2.
        b ! i ! l ! m = (if m < k \<and> m mod 2 = 1 then f (a ! i ! l ! m) else a ! i ! l ! m)"
    by auto
  from Suc.prems have k: "k < n2" by simp
  show ?case
  proof (cases "k mod 2 = 1")
    case True
    from col_op_shape [OF b(2) assms(2,3) k, of f] obtain c where c:
      "col_op k f b = Inr c" "has_shape c n0 n1 n2"
      "\<forall>i<n0. \<forall>l<n1. \<forall>m'<n2.
          c ! i ! l ! m' = (if m' = k then f (b ! i ! l ! m') else b ! i ! l ! m')"
      by blast
    have "for_loop (\<lambda>m c. if m mod 2 = 1 then col_op m f c else Inr c) [0..<Suc k] a = Inr c"
      using True b(1) c(1) by (simp add: for_loop_append)
    moreover have "\<forall>i<n0. \<forall>l<n1. \<forall>m<n2.
        c ! i ! l ! m = (if m < Suc k \<and> m mod 2 = 1 then f (a ! i ! l ! m) else a ! i ! l ! m)"
      using b(3) c(3) True by (auto simp: less_Suc_eq)
    ultimately show ?thesis using c(2) by blast
  next
    case False
    have "for_loop (\<lambda>m c. if m mod 2 = 1 then col_op m f c else Inr c) [0..<Suc k] a = Inr b"
      using False b(1) by (simp add: for_loop_append)
    moreover have "\<forall>i<n0. \<forall>l<n1. \<forall>m<n2.
        b ! i ! l ! m = (if m < Suc k \<and> m mod 2 = 1 then f (a ! i ! l ! m) else a ! i ! l ! m)"
      using b(3) False by (auto simp: less_Suc_eq)
    ultimately show ?thesis using b(2) by blast
  qed
qed

lemma has_shape_zeros3: "has_shape (zeros3 n0 n1 n2 z) n0 n1 n2"
  by (simp add: has_shape_nth zeros3_def)

lemma nth_zeros3: "i < n0 \<Longrightarrow> l < n1 \<Longrightarrow> m < n2 \<Longrightarrow> zeros3 n0 n1 n2 z ! i ! l ! m = z"
  by (simp add: zeros3_def)

lemma map2_3_shape:
  assumes "has_shape a n0 n1 n2" "has_shape b n0 n1 n2"
  shows "has_shape (map2 (map2 (map2 f)) a b) n0 n1 n2"
    and "\<And>i l m. i < n0 \<Longrightarrow> l < n1 \<Longrightarrow> m < n2 \<Longrightarrow>
           map2 (map2 (map2 f)) a b ! i ! l ! m = f (a ! i ! l ! m) (b ! i ! l ! m)"
  using assms by (auto simp: has_shape_nth)

lemma map_3_shape:
  assumes "has_shape a n0 n1 n2"
  shows "has_shape (map (map (map f)) a) n0 n1 n2"
    and "\<And>i l m. i < n0 \<Longrightarrow> l < n1 \<Longrightarrow> m < n2 \<Longrightarrow>
           map (map (map f)) a ! i ! l ! m = f (a ! i ! l ! m)"
  using assms by (auto simp: has_shape_nth)

lemma make_mask_char:
  assumes "0 \<le> lm"
  shows "\<exists>msk. make_mask lm = Inr msk \<and> has_shape msk 2 (nat (lm + 1)) (nat (lm + 1)) \<and>
     (\<forall>i<2. \<forall>l<nat (lm + 1). \<forall>m<nat (lm + 1).
        msk ! i ! l ! m = (m \<le> l \<and> \<not> (i = 1 \<and> m = 0)))"
proof -
  define n where "n = nat (lm + 1)"
  have n: "0 < n" using assms by (simp add: n_def)
  define a0 where "a0 = set3 (zeros3 2 n n False) 0 0 0 True"
  have a0: "has_shape a0 2 n n"
    by (simp add: a0_def has_shape_set3 has_shape_zeros3)
  have a0n: "a0 ! i ! l ! m = (i = 0 \<and> l = 0 \<and> m = 0)" if "i < 2" "l < n" "m < n" for i l m
    using that by (simp add: a0_def nth_set3 [OF has_shape_zeros3] nth_zeros3)
  from row_loop [OF a0, of n "\<lambda>l _. True"] obtain b where b:
    "for_loop (\<lambda>l. row_op l (\<lambda>_. True)) [0..<n] a0 = Inr b" "has_shape b 2 n n"
    "\<forall>i<2. \<forall>l<n. \<forall>m<n. b ! i ! l ! m = (if l < n \<and> m \<le> l then True else a0 ! i ! l ! m)"
    by auto
  define msk where "msk = b[1 := map (\<lambda>r. r[0 := False]) (b ! 1)]"
  have m1: "make_mask lm = Inr msk"
    using n b(1) by (simp add: make_mask_def Let_def arange_def n_def [symmetric] a0_def msk_def)
  have m2: "has_shape msk 2 n n"
    using b(2) by (auto simp: msk_def has_shape_nth nth_list_update_any)
  have m3: "msk ! i ! l ! m = (m \<le> l \<and> \<not> (i = 1 \<and> m = 0))" if "i < 2" "l < n" "m < n" for i l m
  proof -
    have "b ! i ! l ! m = (m \<le> l)" using b(3) a0n that by auto
    moreover have "msk ! i ! l ! m = (if i = 1 \<and> m = 0 then False else b ! i ! l ! m)"
      using b(2) that by (auto simp: msk_def has_shape_nth nth_list_update_any)
    ultimately show ?thesis by auto
  qed
  show ?thesis using m1 m2 m3 unfolding n_def by blast
qed

lemma make_mask_empty: "lm < 0 \<Longrightarrow> make_mask lm = Inl IndexError"
  by (simp add: make_mask_def)

lemma coeffs_init_char:
  assumes "has_shape (elems a) 2 n n" "0 < n"
  shows "\<exists>s msk. coeffs_init knd a nrm cs copy = Inr s \<and> make_mask (int n - 1) = Inr msk
     \<and> mask_arr s = msk \<and> SHCoeffs.lmax s = int n - 1 \<and> SHCoeffs.kind s = knd
     \<and> normalization s = nrm \<and> csphase s = cs \<and> dtype (coeffs s) = dtype a
     \<and> has_shape msk 2 n n \<and> has_shape (elems (coeffs s)) 2 n n
     \<and> (\<forall>i<2. \<forall>l<n. \<forall>m<n. msk ! i ! l ! m = (m \<le> l \<and> \<not> (i = 1 \<and> m = 0)))
     \<and> (\<forall>i<2. \<forall>l<n. \<forall>m<n.
          elems (coeffs s) ! i ! l ! m =
            (if copy \<and> \<not> msk ! i ! l ! m then 0 else elems a ! i ! l ! m))"
proof -
  have s1: "shape1 (elems a) = n" using assms by (simp add: shape1_has_shape)
  have nn: "nat (int n - 1 + 1) = n" by simp
  from make_mask_char [of "int n - 1"] assms(2) obtain msk where msk:
    "make_mask (int n - 1) = Inr msk" "has_shape msk 2 n n"
    "\<forall>i<2. \<forall>l<n. \<forall>m<n. msk ! i ! l ! m = (m \<le> l \<and> \<not> (i = 1 \<and> m = 0))"
    unfolding nn by auto
  show ?thesis
  proof (cases copy)
    case True
    have "has_shape (map2 (map2 (map2 (\<lambda>b v. if b then v else 0))) msk (elems a)) 2 n n"
      by (rule map2_3_shape(1) [OF msk(2) assms(1)])
    moreover have "\<forall>i<2. \<forall>l<n. \<forall>m<n.
        map2 (map2 (map2 (\<lambda>b v. if b then v else 0))) msk (elems a) ! i ! l ! m =
          (if \<not> msk ! i ! l ! m then 0 else elems a ! i ! l ! m)"
      by (simp add: map2_3_shape(2) [OF msk(2) assms(1)])
    ultimately show ?thesis
      using True msk assms(1) by (simp add: coeffs_init_def s1)
  next
    case False
    then show ?thesis
      using msk assms(1) by (simp add: coeffs_init_def s1)
  qed
qed

section \<open>Normalization and phase conversion\<close>

lemma slice_full:
  assumes "has_shape a n0 n n"
  shows "map (\<lambda>p. map (slice_to (int n)) (slice_to (int n) p)) a = a"
  using assms by (auto simp: has_shape_def slice_to_def list_all_iff intro!: map_idI)

lemma normalization_branch:
  fixes a :: "complex list list list"
  assumes "has_shape a n0 n n2" "0 < n0"
  shows "\<exists>c1.
     (if nrm = out then Inr a
      else if nrm = ''4pi'' \<and> out = ''schmidt'' then
        for_loop (\<lambda>l. row_op l (\<lambda>x. sqrt (2 * real l + 1) *\<^sub>R x)) [0..<n] a
      else if nrm = ''4pi'' \<and> out = ''ortho'' then
        Inr (map (map (map (\<lambda>x. sqrt (4 * pi) *\<^sub>R x))) a)
      else if nrm = ''schmidt'' \<and> out = ''4pi'' then
        for_loop (\<lambda>l. row_op l (\<lambda>x. x /\<^sub>R sqrt (2 * real l + 1))) [0..<n] a
      else if nrm = ''schmidt'' \<and> out = ''ortho'' then
        for_loop (\<lambda>l. row_op l (\<lambda>x. sqrt (4 * pi / (2 * real l + 1)) *\<^sub>R x)) [0..<n] a
      else if nrm = ''ortho'' \<and> out = ''4pi'' then
        Inr (map (map (map (\<lambda>x. x /\<^sub>R sqrt (4 * pi)))) a)
      else if nrm = ''ortho'' \<and> out = ''schmidt'' then
        for_loop (\<lambda>l. row_op l (\<lambda>x. sqrt ((2 * real l + 1) / (4 * pi)) *\<^sub>R x)) [0..<n] a
      else Inr a) = Inr c1
     \<and> has_shape c1 n0 n n2
     \<and> (\<forall>i<n0. \<forall>l<n. \<forall>m<n2.
          c1 ! i ! l ! m =
            (if factor_applies nrm out l m then conversion_factor nrm out l *\<^sub>R (a ! i ! l ! m)
             else a ! i ! l ! m))"
proof -
  have loop: "\<exists>c1. for_loop (\<lambda>l. row_op l (\<lambda>x. c l *\<^sub>R x)) [0..<n] a = Inr c1
      \<and> has_shape c1 n0 n n2
      \<and> (\<forall>i<n0. \<forall>l<n. \<forall>m<n2.
            c1 ! i ! l ! m = (if m \<le> l then c l *\<^sub>R (a ! i ! l ! m) else a ! i ! l ! m))"
    for c :: "nat \<Rightarrow> real"
    using row_loop [OF assms, of n "\<lambda>l x. c l *\<^sub>R x"] by auto
  have whole: "has_shape (map (map (map (\<lambda>x. c *\<^sub>R x))) a) n0 n n2
      \<and> (\<forall>i<n0. \<forall>l<n. \<forall>m<n2.
            map (map (map (\<lambda>x. c *\<^sub>R x))) a ! i ! l ! m = c *\<^sub>R (a ! i ! l ! m))"
    for c :: real
    using map_3_shape [OF assms(1)] by auto
  consider (same) "nrm = out"
    | (ps) "nrm = ''4pi''" "out = ''schmidt''"
    | (po) "nrm = ''4pi''" "out = ''ortho''"
    | (sp) "nrm = ''schmidt''" "out = ''4pi''"
    | (so) "nrm = ''schmidt''" "out = ''ortho''"
    | (op) "nrm = ''ortho''" "out = ''4pi''"
    | (os) "nrm = ''ortho''" "out = ''schmidt''"
    | (other) "nrm \<noteq> out" "\<not> (nrm = ''4pi'' \<and> out = ''schmidt'')"
        "\<not> (nrm = ''4pi'' \<and> out = ''ortho'')" "\<not> (nrm = ''schmidt'' \<and> out = ''4pi'')"
        "\<not> (nrm = ''schmidt'' \<and> out = ''ortho'')" "\<not> (nrm = ''ortho'' \<and> out = ''4pi'')"
        "\<not> (nrm = ''ortho'' \<and> out = ''schmidt'')"
    by argo
  then show ?thesis
  proof cases
    case same
    then show ?thesis using assms(1) by (simp add: conversion_factor_def)
  next
    case ps
    with loop [of "\<lambda>l. sqrt (2 * real l + 1)"] show ?thesis
      by (auto simp: conversion_factor_def factor_applies_def)
  next
    case po
    with whole [of "sqrt (4 * pi)"] show ?thesis
      by (auto simp: conversion_factor_def factor_applies_def)
  next
    case sp
    with loop [of "\<lambda>l. inverse (sqrt (2 * real l + 1))"] show ?thesis
      by (auto simp: conversion_factor_def factor_applies_def)
  next
    case so
    with loop [of "\<lambda>l. sqrt (4 * pi / (2 * real l + 1))"] show ?thesis
      by (auto simp: conversion_factor_def factor_applies_def)
  next
    case op
    with whole [of "inverse (sqrt (4 * pi))"] show ?thesis
      by (auto simp: conversion_factor_def factor_applies_def)
  next
    case os
    with loop [of "\<lambda>l. sqrt ((2 * real l + 1) / (4 * pi))"] show ?thesis
      by (auto simp: conversion_factor_def factor_applies_def)
  next
    case other
    then show ?thesis using assms(1) by (auto simp: conversion_factor_def)
  qed
qed

lemma phase_branch:
  fixes a :: "complex list list list"
  assumes "has_shape a n0 n1 n" "0 < n0" "0 < n1"
  shows "\<exists>c2.
     (if ocs \<noteq> cs then
        for_loop (\<lambda>m c. if m mod 2 = 1 then col_op m uminus c else Inr c) [0..<n] a
      else Inr a) = Inr c2
     \<and> has_shape c2 n0 n1 n
     \<and> (\<forall>i<n0. \<forall>l<n1. \<forall>m<n. c2 ! i ! l ! m = phase_factor cs ocs m *\<^sub>R (a ! i ! l ! m))"
proof (cases "ocs = cs")
  case True
  then show ?thesis using assms(1) by (simp add: phase_factor_def)
next
  case False
  with col_loop [OF assms, of n uminus] show ?thesis
    by (auto simp: phase_factor_def)
qed

lemma coeffs__to_array_char:
  assumes sh: "has_shape (elems (coeffs s)) 2 n n" and n: "0 < n"
  shows "\<exists>e. coeffs__to_array s out ocs (int n - 1) = Inr ((coeffs s)\<lparr>elems := e\<rparr>)
     \<and> has_shape e 2 n n
     \<and> (\<forall>i<2. \<forall>l<n. \<forall>m<n.
          e ! i ! l ! m =
            converted_entry (normalization s) (csphase s) out ocs l m
              (elems (coeffs s) ! i ! l ! m))"
proof -
  define a where "a = elems (coeffs s)"
  have a: "has_shape a 2 n n" using sh by (simp add: a_def)
  have sl: "map (\<lambda>p. map (slice_to (int n - 1 + 1)) (slice_to (int n - 1 + 1) p)) a = a"
    using slice_full [OF a] by simp
  have ar: "arange (int n - 1 + 1) = [0..<n]" by (simp add: arange_def)
  from normalization_branch [OF a, of "normalization s" out] obtain c1 where c1:
    "(if normalization s = out then Inr a
      else if normalization s = ''4pi'' \<and> out = ''schmidt'' then
        for_loop (\<lambda>l. row_op l (\<lambda>x. sqrt (2 * real l + 1) *\<^sub>R x)) [0..<n] a
      else if normalization s = ''4pi'' \<and> out = ''ortho'' then
        Inr (map (map (map (\<lambda>x. sqrt (4 * pi) *\<^sub>R x))) a)
      else if normalization s = ''schmidt'' \<and> out = ''4pi'' then
        for_loop (\<lambda>l. row_op l (\<lambda>x. x /\<^sub>R sqrt (2 * real l + 1))) [0..<n] a
      else if normalization s = ''schmidt'' \<and> out = ''ortho'' then
        for_loop (\<lambda>l. row_op l (\<lambda>x. sqrt (4 * pi / (2 * real l + 1)) *\<^sub>R x)) [0..<n] a
      else if normalization s = ''ortho'' \<and> out = ''4pi'' then
        Inr (map (map (map (\<lambda>x. x /\<^sub>R sqrt (4 * pi)))) a)
      else if normalization s = ''ortho'' \<and> out = ''schmidt'' then
        for_loop (\<lambda>l. row_op l (\<lambda>x. sqrt ((2 * real l + 1) / (4 * pi)) *\<^sub>R x)) [0..<n] a
      else Inr a) = Inr c1"
    "has_shape c1 2 n n"
    "\<forall>i<2. \<forall>l<n. \<forall>m<n.
          c1 ! i ! l ! m =
            (if factor_applies (normalization s) out l m
             then conversion_factor (normalization s) out l *\<^sub>R (a ! i ! l ! m)
             else a ! i ! l ! m)"
    by (auto simp del: One_nat_def)
  from phase_branch [OF c1(2) _ n, of ocs "csphase s"] obtain c2 where c2:
    "(if ocs \<noteq> csphase s then
        for_loop (\<lambda>m c. if m mod 2 = 1 then col_op m uminus c else Inr c) [0..<n] c1
      else Inr c1) = Inr c2"
    "has_shape c2 2 n n"
    "\<forall>i<2. \<forall>l<n. \<forall>m<n. c2 ! i ! l ! m = phase_factor (csphase s) ocs m *\<^sub>R (c1 ! i ! l ! m)"
    by auto
  have "coeffs__to_array s out ocs (int n - 1) = Inr ((coeffs s)\<lparr>elems := c2\<rparr>)"
    unfolding coeffs__to_array_def Let_def a_def [symmetric] sl ar c1(1) sum.case c2(1)
    by (rule refl)
  moreover have "\<forall>i<2. \<forall>l<n. \<forall>m<n.
          c2 ! i ! l ! m =
            converted_entry (normalization s) (csphase s) out ocs l m (a ! i ! l ! m)"
    using c1(3) c2(3) by (simp add: converted_entry_def)
  ultimately show ?thesis using c2(2) unfolding a_def by blast
qed

lemma to_array_char:
  assumes sh: "has_shape (elems (coeffs s)) 2 n n" and n: "0 < n"
    and lm: "SHCoeffs.lmax s = int n - 1"
    and knd: "SHCoeffs.kind s = ''real'' \<or> SHCoeffs.kind s = ''complex''"
    and out: "out = ''4pi'' \<or> out = ''ortho'' \<or> out = ''schmidt''"
    and ocs: "ocs = 1 \<or> ocs = - 1"
    and lo: "lm_opt = None \<or> lm_opt = Some (SHCoeffs.lmax s)"
  shows "\<exists>e. to_array s (Some out) (Some ocs) lm_opt = Inr ((coeffs s)\<lparr>elems := e\<rparr>)
     \<and> has_shape e 2 n n
     \<and> (\<forall>i<2. \<forall>l<n. \<forall>m<n.
          e ! i ! l ! m =
            converted_entry (normalization s) (csphase s) out ocs l m
              (elems (coeffs s) ! i ! l ! m))"
proof -
  have "to_array s (Some out) (Some ocs) lm_opt = coeffs__to_array s out ocs (int n - 1)"
    using knd out ocs lo lm
    by (auto simp: to_array_def lower_normalizations SHRealCoeffs__to_array_def
        SHComplexCoeffs__to_array_def)
  then show ?thesis using coeffs__to_array_char [OF sh n, of out ocs] by simp
qed

lemma sqrt_ratio_inverse:
  assumes "0 < x" "0 < y"
  shows "sqrt (x / y) * sqrt (y / x) = 1"
proof -
  have "sqrt (x / y) * sqrt (y / x) = sqrt ((x / y) * (y / x))"
    by (rule real_sqrt_mult [symmetric])
  also have "(x / y) * (y / x) = 1" using assms by simp
  finally show ?thesis by simp
qed

lemma conversion_factor_inverse:
  assumes "n1 = ''4pi'' \<or> n1 = ''ortho'' \<or> n1 = ''schmidt''"
    and "n2 = ''4pi'' \<or> n2 = ''ortho'' \<or> n2 = ''schmidt''"
  shows "conversion_factor n2 n1 l * conversion_factor n1 n2 l = 1"
proof -
  have p: "0 < 2 * real l + 1" "0 < 4 * pi" by simp_all
  have s: "sqrt (2 * real l + 1) \<noteq> 0" "sqrt (4 * pi) \<noteq> 0" using p by simp_all
  have i1: "inverse (sqrt (2 * real l + 1)) * sqrt (2 * real l + 1) = 1"
    "sqrt (2 * real l + 1) * inverse (sqrt (2 * real l + 1)) = 1"
    "inverse (sqrt (4 * pi)) * sqrt (4 * pi) = 1"
    "sqrt (4 * pi) * inverse (sqrt (4 * pi)) = 1"
    using s by simp_all
  have m: "sqrt ((2 * real l + 1) / (4 * pi)) * sqrt (4 * pi / (2 * real l + 1)) = 1"
    "sqrt (4 * pi / (2 * real l + 1)) * sqrt ((2 * real l + 1) / (4 * pi)) = 1"
    using sqrt_ratio_inverse [OF p] sqrt_ratio_inverse [OF p(2) p(1)] by simp_all
  from assms show ?thesis
    by (elim disjE) (simp_all only: conversion_factor_def i1 m if_True if_False simp_thms
        list.inject char.inject list.distinct)
qed

lemma factor_applies_sym: "factor_applies n2 n1 l m = factor_applies n1 n2 l m"
  by (auto simp: factor_applies_def)

lemma phase_factor_involution: "phase_factor c2 c1 m * phase_factor c1 c2 m = 1"
  by (simp add: phase_factor_def)

lemma converted_entry_inverse:
  assumes "n1 = ''4pi'' \<or> n1 = ''ortho'' \<or> n1 = ''schmidt''"
    and "n2 = ''4pi'' \<or> n2 = ''ortho'' \<or> n2 = ''schmidt''"
  shows "converted_entry n2 c2 n1 c1 l m (converted_entry n1 c1 n2 c2 l m x) = x"
proof -
  have "converted_entry n2 c2 n1 c1 l m (converted_entry n1 c1 n2 c2 l m x) =
      (phase_factor c2 c1 m * phase_factor c1 c2 m) *\<^sub>R
        (if factor_applies n1 n2 l m
         then (conversion_factor n2 n1 l * conversion_factor n1 n2 l) *\<^sub>R x else x)"
    by (simp add: converted_entry_def factor_applies_sym [of n2 n1])
  then show ?thesis
    by (simp add: phase_factor_involution conversion_factor_inverse [OF assms])
qed

section \<open>Arithmetic operators\<close>

lemma from_array_char:
  assumes "has_shape (elems a) 2 n n" "0 < n"
    and "lower nrm \<in> {''4pi'', ''ortho'', ''schmidt''}" "cs = 1 \<or> cs = - 1"
  shows "\<exists>s msk. from_array a nrm cs copy = Inr s \<and> make_mask (int n - 1) = Inr msk
     \<and> mask_arr s = msk \<and> SHCoeffs.lmax s = int n - 1
     \<and> SHCoeffs.kind s = (if dtype a = complex128 then ''complex'' else ''real'')
     \<and> normalization s = lower nrm \<and> csphase s = cs \<and> dtype (coeffs s) = dtype a
     \<and> has_shape msk 2 n n \<and> has_shape (elems (coeffs s)) 2 n n
     \<and> (\<forall>i<2. \<forall>l<n. \<forall>m<n. msk ! i ! l ! m = (m \<le> l \<and> \<not> (i = 1 \<and> m = 0)))
     \<and> (\<forall>i<2. \<forall>l<n. \<forall>m<n.
          elems (coeffs s) ! i ! l ! m =
            (if copy \<and> \<not> msk ! i ! l ! m then 0 else elems a ! i ! l ! m))"
proof (cases "dtype a = complex128")
  case True
  with assms(3,4) coeffs_init_char [OF assms(1,2), of "''complex''" "lower nrm" cs copy]
  show ?thesis
    by (auto simp: from_array_def iscomplexobj_def SHComplexCoeffs_init_def)
next
  case False
  with assms(3,4) coeffs_init_char [OF assms(1,2), of "''real''" "lower nrm" cs copy]
  show ?thesis
    by (auto simp: from_array_def iscomplexobj_def SHRealCoeffs_init_def)
qed

lemma from_array_result_dtype:
  "from_array a nrm cs copy = Inr r \<Longrightarrow>
     dtype (coeffs r) = dtype a
     \<and> SHCoeffs.kind r = (if dtype a = complex128 then ''complex'' else ''real'')"
  by (auto simp: from_array_def iscomplexobj_def SHComplexCoeffs_init_def SHRealCoeffs_init_def
      coeffs_init_def Let_def split: if_splits sum.splits)

lemma has_shape_masked_assign:
  "has_shape msk n0 n1 n2 \<Longrightarrow> has_shape v n0 n1 n2 \<Longrightarrow> has_shape (masked_assign msk v) n0 n1 n2"
  unfolding masked_assign_def by (rule map2_3_shape(1))

lemma has_shape_elementwise:
  "has_shape a n0 n1 n2 \<Longrightarrow> has_shape b n0 n1 n2 \<Longrightarrow> has_shape (elementwise f a b) n0 n1 n2"
  unfolding elementwise_def by (rule map2_3_shape(1))

lemma binary_operator_mismatch:
  "\<not> (normalization s = normalization t \<and> csphase s = csphase t
        \<and> SHCoeffs.kind s = SHCoeffs.kind t) \<Longrightarrow>
   binary_operator f s (Coeffs t) = Inl ValueError"
  by (auto simp: binary_operator_def)

lemma binary_operator_success:
  assumes "normalization s = normalization t" "csphase s = csphase t"
    "SHCoeffs.kind s = SHCoeffs.kind t"
    and "0 \<le> SHCoeffs.lmax s"
    and "has_shape (mask_arr s) 2 (nat (SHCoeffs.lmax s + 1)) (nat (SHCoeffs.lmax s + 1))"
    and "has_shape (elems (coeffs s)) 2 (nat (SHCoeffs.lmax s + 1)) (nat (SHCoeffs.lmax s + 1))"
    and "has_shape (elems (coeffs t)) 2 (nat (SHCoeffs.lmax s + 1)) (nat (SHCoeffs.lmax s + 1))"
    and "normalization s \<in> {''4pi'', ''ortho'', ''schmidt''}"
    and "csphase s = 1 \<or> csphase s = - 1"
  shows "\<exists>r. binary_operator f s (Coeffs t) = Inr r"
proof -
  define n where "n = nat (SHCoeffs.lmax s + 1)"
  have n: "0 < n" using assms(4) by (simp add: n_def)
  have sh: "has_shape (masked_assign (mask_arr s)
      (elementwise f (elems (coeffs s)) (elems (coeffs t)))) 2 n n"
    using assms(5,6,7) unfolding n_def
    by (intro has_shape_masked_assign has_shape_elementwise)
  have lw: "lower (normalization s) \<in> {''4pi'', ''ortho'', ''schmidt''}"
    using assms(8) by (auto simp: lower_normalizations)
  from from_array_char [of "\<lparr>dtype = float64, elems = masked_assign (mask_arr s)
      (elementwise f (elems (coeffs s)) (elems (coeffs t)))\<rparr>" n "normalization s" "csphase s" True]
    sh n lw assms(9)
  obtain r where "from_array \<lparr>dtype = float64, elems = masked_assign (mask_arr s)
      (elementwise f (elems (coeffs s)) (elems (coeffs t)))\<rparr> (normalization s) (csphase s) True = Inr r"
    by auto
  then show ?thesis
    using assms(1-7) by (simp add: binary_operator_def n_def Let_def)
qed

lemma binary_operator_dtype:
  "binary_operator f s other = Inr r \<Longrightarrow>
     dtype (coeffs r) = float64 \<and> SHCoeffs.kind r = ''real''"
  by (cases other)
     (auto simp: binary_operator_def Let_def split: if_splits dest!: from_array_result_dtype)

lemma operators_are_binary_operators:
  assumes "op \<in> {op_add, op_radd, op_sub, op_rsub, op_mul, op_rmul, op_div, op_truediv}"
  shows "\<exists>f. op = binary_operator f"
proof -
  have "op_radd = binary_operator (\<lambda>x y. x + y)" "op_rmul = binary_operator (\<lambda>x y. x * y)"
    by (auto simp: op_radd_def op_rmul_def op_add_def op_mul_def fun_eq_iff)
  with assms show ?thesis
    by (auto simp: op_add_def op_sub_def op_rsub_def op_mul_def op_div_def op_truediv_def)
qed

text \<open>
  Claim C3. For each binary operator (add, subtract, multiply, divide, and their
  reflected forms) and two coefficient sets: when \<open>normalization\<close>, \<open>csphase\<close> or
  \<open>kind\<close> differ the operator raises ValueError, so it returns a coefficient set only
  when all three are equal; and when they are equal, for operands of one shape as the
  constructors build them, it does return a new coefficient set. The operators only read
  their operands: in the model they are functions of the operands' values and return the
  new instance, so no operand is changed.
\<close>

theorem arithmetic_requires_matching_conventions:
  assumes "op \<in> {op_add, op_radd, op_sub, op_rsub, op_mul, op_rmul, op_div, op_truediv}"
  shows
    "(\<not> (normalization s = normalization t \<and> csphase s = csphase t
          \<and> SHCoeffs.kind s = SHCoeffs.kind t) \<longrightarrow> op s (Coeffs t) = Inl ValueError)
     \<and> (\<forall>r. op s (Coeffs t) = Inr r \<longrightarrow>
           normalization s = normalization t \<and> csphase s = csphase t
           \<and> SHCoeffs.kind s = SHCoeffs.kind t)
     \<and> (normalization u = normalization v \<and> csphase u = csphase v
        \<and> SHCoeffs.kind u = SHCoeffs.kind v
        \<and> 0 \<le> SHCoeffs.lmax u
        \<and> has_shape (mask_arr u) 2 (nat (SHCoeffs.lmax u + 1)) (nat (SHCoeffs.lmax u + 1))
        \<and> has_shape (elems (coeffs u)) 2 (nat (SHCoeffs.lmax u + 1)) (nat (SHCoeffs.lmax u + 1))
        \<and> has_shape (elems (coeffs v)) 2 (nat (SHCoeffs.lmax u + 1)) (nat (SHCoeffs.lmax u + 1))
        \<and> normalization u \<in> {''4pi'', ''ortho'', ''schmidt''}
        \<and> (csphase u = 1 \<or> csphase u = - 1)
        \<longrightarrow> (\<exists>r. op u (Coeffs v) = Inr r))"
proof -
  from operators_are_binary_operators [OF assms] obtain f where f: "op = binary_operator f" ..
  have a: "\<not> (normalization s = normalization t \<and> csphase s = csphase t
          \<and> SHCoeffs.kind s = SHCoeffs.kind t) \<longrightarrow> op s (Coeffs t) = Inl ValueError"
    unfolding f using binary_operator_mismatch [of s t f] by blast
  have b: "\<forall>r. op s (Coeffs t) = Inr r \<longrightarrow>
           normalization s = normalization t \<and> csphase s = csphase t
           \<and> SHCoeffs.kind s = SHCoeffs.kind t"
    using a by auto
  have c: "normalization u = normalization v \<and> csphase u = csphase v
        \<and> SHCoeffs.kind u = SHCoeffs.kind v
        \<and> 0 \<le> SHCoeffs.lmax u
        \<and> has_shape (mask_arr u) 2 (nat (SHCoeffs.lmax u + 1)) (nat (SHCoeffs.lmax u + 1))
        \<and> has_shape (elems (coeffs u)) 2 (nat (SHCoeffs.lmax u + 1)) (nat (SHCoeffs.lmax u + 1))
        \<and> has_shape (elems (coeffs v)) 2 (nat (SHCoeffs.lmax u + 1)) (nat (SHCoeffs.lmax u + 1))
        \<and> normalization u \<in> {''4pi'', ''ortho'', ''schmidt''}
        \<and> (csphase u = 1 \<or> csphase u = - 1)
        \<longrightarrow> (\<exists>r. op u (Coeffs v) = Inr r)"
    unfolding f using binary_operator_success [of u v f] by blast
  show ?thesis using a b c by blast
qed

lemma sample_real_shapes:
  "has_shape (mask_arr sample_real) 2 2 2" "has_shape (elems (coeffs sample_real)) 2 2 2"
  by (simp_all add: sample_real_def has_shape_def)

theorem arithmetic_requires_matching_conventions_witness:
  "op_add \<in> {op_add, op_radd, op_sub, op_rsub, op_mul, op_rmul, op_div, op_truediv}
   \<and> SHCoeffs.kind sample_real \<noteq> SHCoeffs.kind sample_complex
   \<and> op_add sample_real (Coeffs sample_complex) = Inl ValueError
   \<and> normalization sample_real = normalization sample_real
   \<and> 0 \<le> SHCoeffs.lmax sample_real
   \<and> has_shape (mask_arr sample_real) 2 2 2 \<and> has_shape (elems (coeffs sample_real)) 2 2 2
   \<and> normalization sample_real \<in> {''4pi'', ''ortho'', ''schmidt''}
   \<and> csphase sample_real = 1
   \<and> (\<exists>r. op_add sample_real (Coeffs sample_real) = Inr r)"
proof -
  have m: "op_add \<in> {op_add, op_radd, op_sub, op_rsub, op_mul, op_rmul, op_div, op_truediv}"
    by simp
  have k: "SHCoeffs.kind sample_real \<noteq> SHCoeffs.kind sample_complex"
    by (simp add: sample_real_def sample_complex_def)
  have l: "SHCoeffs.lmax sample_real = 1" "normalization sample_real = ''4pi''"
    "csphase sample_real = 1"
    by (simp_all add: sample_real_def)
  show ?thesis
    using arithmetic_requires_matching_conventions
        [OF m, of sample_real sample_complex sample_real sample_real] k sample_real_shapes
    by (simp add: l)
qed

lemma make_mask_0: "make_mask 0 = Inr [[[True]], [[False]]]"
  by code_simp

lemma add_sample_complex:
  "op_add sample_complex (Coeffs sample_complex) =
     Inr \<lparr>mask_arr = [[[True]], [[False]]], lmax = 0, kind = ''real'', normalization = ''4pi'',
          csphase = 1, coeffs = \<lparr>dtype = float64, elems = [[[2]], [[0]]]\<rparr>\<rparr>"
  by (simp add: op_add_def binary_operator_def sample_complex_def has_shape_def
      masked_assign_def elementwise_def cast_def from_array_def lower_normalizations
      iscomplexobj_def SHRealCoeffs_init_def coeffs_init_def shape1_def make_mask_0)

text \<open>
  Claim C9. The operators allocate their result with \<open>numpy.zeros\<close> and no dtype, a
  \<open>float64\<close> array: whatever the operands, a result has dtype \<open>float64\<close> and kind
  \<open>real\<close>. So for the complex coefficient set \<open>sample_complex\<close>, added to itself, the
  result is not the elementwise complex sum: the imaginary parts are lost.
\<close>

theorem arithmetic_result_has_real_dtype:
  "(op \<in> {op_add, op_radd, op_sub, op_rsub, op_mul, op_rmul, op_div, op_truediv} \<longrightarrow>
      (\<forall>r. op s other = Inr r \<longrightarrow> dtype (coeffs r) = float64 \<and> SHCoeffs.kind r = ''real''))
   \<and> SHCoeffs.kind sample_complex = ''complex''
   \<and> dtype (coeffs sample_complex) = complex128
   \<and> (\<exists>r. op_add sample_complex (Coeffs sample_complex) = Inr r
         \<and> elems (coeffs r) = [[[2]], [[0]]]
         \<and> elementwise (\<lambda>x y. x + y) (elems (coeffs sample_complex))
              (elems (coeffs sample_complex)) = [[[2 + 4 * \<i>]], [[0]]]
         \<and> elems (coeffs r) \<noteq>
             elementwise (\<lambda>x y. x + y) (elems (coeffs sample_complex))
               (elems (coeffs sample_complex)))"
proof -
  have g: "op \<in> {op_add, op_radd, op_sub, op_rsub, op_mul, op_rmul, op_div, op_truediv} \<longrightarrow>
      (\<forall>r. op s other = Inr r \<longrightarrow> dtype (coeffs r) = float64 \<and> SHCoeffs.kind r = ''real'')"
  proof (intro impI allI)
    fix r assume "op \<in> {op_add, op_radd, op_sub, op_rsub, op_mul, op_rmul, op_div, op_truediv}"
      and r: "op s other = Inr r"
    then obtain f where "op = binary_operator f"
      using operators_are_binary_operators by blast
    with r show "dtype (coeffs r) = float64 \<and> SHCoeffs.kind r = ''real''"
      using binary_operator_dtype [of f s other r] by simp
  qed
  have e: "elementwise (\<lambda>x y. x + y) (elems (coeffs sample_complex))
              (elems (coeffs sample_complex)) = [[[2 + 4 * \<i>]], [[0]]]"
    by (simp add: elementwise_def sample_complex_def)
  have ne: "[[[2::complex]], [[0]]] \<noteq> [[[2 + 4 * \<i>]], [[0]]]"
    by (simp add: complex_eq_iff)
  show ?thesis
    using g e ne by (simp add: add_sample_complex) (simp add: sample_complex_def)
qed

theorem arithmetic_result_has_real_dtype_witness:
  "op_add \<in> {op_add, op_radd, op_sub, op_rsub, op_mul, op_rmul, op_div, op_truediv}
   \<and> (\<exists>r. op_add sample_complex (Coeffs sample_complex) = Inr r
         \<and> dtype (coeffs r) = float64 \<and> SHCoeffs.kind r = ''real'')"
  using arithmetic_result_has_real_dtype [of op_add sample_complex "Coeffs sample_complex"]
  by (simp add: add_sample_complex)

section \<open>Spectra\<close>


lemma lower_conventions:
  "lower ''power'' = ''power''" "lower ''energy'' = ''energy''" "lower ''l2norm'' = ''l2norm''"
  "lower ''per_l'' = ''per_l''" "lower ''per_lm'' = ''per_lm''"
  by (simp_all add: lower_def lower_char_def)

lemma inplace_same_length:
  "length v = length sp \<Longrightarrow> inplace f sp v = Inr (map2 f sp v)"
  by (simp add: inplace_def)

lemma map2_div_degrees:
  "map2 (\<lambda>x y. x / y) sp (map (\<lambda>l. 2 * real l + 1) ds) = map2 (\<lambda>x l. x / (2 * real l + 1)) sp ds"
  by (simp add: zip_map2 case_prod_unfold)

text \<open>
  Claim C4. For every coefficient set (real or complex, of one of the three
  normalizations, with a backend that returns one value per degree) and every
  convention among power, energy and l2norm: the spectrum with unit \<open>per_lm\<close> is, degree
  by degree for \<open>l = 0, ..., lmax\<close>, the spectrum with unit \<open>per_l\<close> divided by
  \<open>2l + 1\<close>.
\<close>

theorem spectrum_per_lm_is_per_l_over_2l_plus_1:
  assumes conv: "convention \<in> {''power'', ''energy'', ''l2norm''}"
    and nrm: "normalization s \<in> {''4pi'', ''ortho'', ''schmidt''}"
    and knd: "SHCoeffs.kind s \<in> {''real'', ''complex''}"
    and len: "length (SHPowerSpectrum (coeffs s)) = length (degrees s)"
             "length (SHPowerSpectrumC (coeffs s)) = length (degrees s)"
  shows "\<exists>sp. spectrum SHPowerSpectrum SHPowerSpectrumC s convention ''per_l'' base = Inr sp
     \<and> length sp = length (degrees s)
     \<and> spectrum SHPowerSpectrum SHPowerSpectrumC s convention ''per_lm'' base
         = Inr (map2 (\<lambda>x l. x / (2 * real l + 1)) sp (degrees s))"
proof -
  have core: "\<exists>sp. coeffs__spectrum ps s convention ''per_l'' base = Inr sp
     \<and> length sp = length (degrees s)
     \<and> coeffs__spectrum ps s convention ''per_lm'' base
         = Inr (map2 (\<lambda>x l. x / (2 * real l + 1)) sp (degrees s))"
    if "length (ps (coeffs s)) = length (degrees s)" for ps
    using conv nrm that
    by (auto simp: coeffs__spectrum_def lower_conventions inplace_same_length map2_div_degrees)
  from knd show ?thesis
    using core [of SHPowerSpectrum, OF len(1)] core [of SHPowerSpectrumC, OF len(2)]
    by (auto simp: spectrum_def SHRealCoeffs__spectrum_def SHComplexCoeffs__spectrum_def)
qed

theorem spectrum_per_lm_is_per_l_over_2l_plus_1_witness:
  "''power'' \<in> {''power'', ''energy'', ''l2norm''}
   \<and> normalization sample_real \<in> {''4pi'', ''ortho'', ''schmidt''}
   \<and> SHCoeffs.kind sample_real \<in> {''real'', ''complex''}
   \<and> length (SHPowerSpectrum_spec (coeffs sample_real)) = length (degrees sample_real)
   \<and> spectrum SHPowerSpectrum_spec SHPowerSpectrum_spec sample_real ''power'' ''per_l'' 10
       = Inr [9, 6]
   \<and> spectrum SHPowerSpectrum_spec SHPowerSpectrum_spec sample_real ''power'' ''per_lm'' 10
       = Inr [9, 2]"
proof -
  have ps: "SHPowerSpectrum_spec (coeffs sample_real) = [9, 6]"
    by (simp add: SHPowerSpectrum_spec_def sample_real_def shape1_def numeral_2_eq_2)
  have d: "degrees sample_real = [0, 1]"
    by (simp add: sample_real_def degrees_def arange_def numeral_2_eq_2)
  have h: "''power'' \<in> {''power'', ''energy'', ''l2norm''}"
    "normalization sample_real \<in> {''4pi'', ''ortho'', ''schmidt''}"
    "SHCoeffs.kind sample_real \<in> {''real'', ''complex''}"
    "length (SHPowerSpectrum_spec (coeffs sample_real)) = length (degrees sample_real)"
    by (simp_all add: ps d) (simp_all add: sample_real_def)
  have p: "spectrum SHPowerSpectrum_spec SHPowerSpectrum_spec sample_real ''power'' ''per_l'' 10
       = Inr [9, 6]"
    by (simp add: spectrum_def SHRealCoeffs__spectrum_def coeffs__spectrum_def
        lower_conventions ps) (simp add: sample_real_def)
  show ?thesis
    using spectrum_per_lm_is_per_l_over_2l_plus_1
        [where SHPowerSpectrum = SHPowerSpectrum_spec and SHPowerSpectrumC = SHPowerSpectrum_spec
           and s = sample_real and convention = "''power''" and base = 10,
         OF h(1) h(2) h(3) h(4) h(4)] h
    by (simp add: p d)
qed

section \<open>Rotation\<close>

lemma from_array_unit_real: "from_array unit_array ''4pi'' 1 True = Inr unit_real"
  by (simp add: from_array_def lower_normalizations iscomplexobj_def SHRealCoeffs_init_def
      coeffs_init_def unit_array_def unit_real_def shape1_def make_mask_0 has_shape_def)

lemma from_array_unit_schmidt: "from_array unit_array ''schmidt'' 1 True = Inr unit_schmidt"
  by (simp add: from_array_def lower_normalizations iscomplexobj_def SHRealCoeffs_init_def
      coeffs_init_def unit_array_def unit_schmidt_def shape1_def make_mask_0 has_shape_def)

lemma to_array_unit_schmidt:
  "to_array unit_schmidt (Some ''4pi'') (Some 1) None = Inr unit_array"
  by (simp add: to_array_def SHRealCoeffs__to_array_def coeffs__to_array_def slice_to_def
      lower_normalizations unit_schmidt_def unit_array_def arange_def row_op_def shape1_def
      map_prefix_def)

lemma unit_schmidt_fields:
  "normalization unit_schmidt = ''schmidt''" "csphase unit_schmidt = 1"
  "SHCoeffs.kind unit_schmidt = ''real''" "SHCoeffs.lmax unit_schmidt = 0"
  "coeffs unit_schmidt = unit_array"
  by (simp_all add: unit_schmidt_def)

lemma unit_real_fields:
  "normalization unit_real = ''4pi''" "csphase unit_real = 1"
  "SHCoeffs.kind unit_real = ''real''" "SHCoeffs.lmax unit_real = 0"
  "coeffs unit_real = unit_array"
  by (simp_all add: unit_real_def)

text \<open>
  Claim C5 (the code departs from it). \<open>rotate(0, 0, 0)\<close> should return the
  coefficients of the input for every normalization and phase. For a real coefficient
  set that is not 4pi-normalized with \<open>csphase = 1\<close>, \<open>_rotate\<close> calls
  \<open>SHCoeffs.from_array(coeffs, kind='real')\<close>, and \<open>from_array\<close> has no parameter
  \<open>kind\<close>: whatever the backend and the angles, the method raises TypeError and
  returns no coefficient set. So it does for the Schmidt semi-normalized set built from
  \<open>[[[1.]], [[0.]]]\<close>.
\<close>

theorem rotate_other_convention_raises_TypeError:
  "from_array unit_array ''schmidt'' 1 True = Inr unit_schmidt
   \<and> rotate_coeffs djpi2 SHRotateRealCoef unit_schmidt 0 0 0 True None = Inl TypeError
   \<and> (\<forall>r. (normalization s \<noteq> ''4pi'' \<or> csphase s \<noteq> 1) \<longrightarrow>
          rotate_coeffs djpi2 SHRotateRealCoef s alpha beta gamma in_degrees dj \<noteq> Inr r)"
proof -
  have a: "rotate_coeffs djpi2 SHRotateRealCoef unit_schmidt 0 0 0 True None = Inl TypeError"
    by (simp add: rotate_coeffs_def SHRealCoeffs__rotate_def to_array_unit_schmidt Let_def
        unit_schmidt_fields)
  have b: "\<forall>r. (normalization s \<noteq> ''4pi'' \<or> csphase s \<noteq> 1) \<longrightarrow>
          rotate_coeffs djpi2 SHRotateRealCoef s alpha beta gamma in_degrees dj \<noteq> Inr r"
    by (auto simp: rotate_coeffs_def SHRealCoeffs__rotate_def Let_def split: sum.splits)
  show ?thesis using a b by (simp add: from_array_unit_schmidt)
qed

theorem rotate_other_convention_raises_TypeError_witness:
  "normalization unit_schmidt \<noteq> ''4pi''
   \<and> rotate_coeffs (\<lambda>n. ()) (\<lambda>a angles dj. a) unit_schmidt 0 0 0 True None = Inl TypeError"
  using rotate_other_convention_raises_TypeError
    [of "\<lambda>n. ()" "\<lambda>a angles dj. a" unit_schmidt 0 0 0 True None]
  by (simp add: unit_schmidt_fields)

section \<open>Grid construction\<close>

lemma upper_grid_names: "upper ''DH'' = ''DH''" "upper ''GLQ'' = ''GLQ''"
  by (simp_all add: upper_def upper_char_def)

text \<open>
  Claim C6. Building a grid from an array checks the dimensions of the sampling scheme
  and derives \<open>lmax\<close> from them. A DH grid (real or complex) is built exactly when
  \<open>nlat\<close> is even and \<open>nlon\<close> is \<open>nlat\<close> or \<open>2 * nlat\<close>, and then
  \<open>lmax = nlat / 2 - 1\<close>; a GLQ grid exactly when \<open>nlon = 2 * nlat - 1\<close>, and then
  \<open>lmax = nlat - 1\<close>; every other shape raises ValueError. \<open>SHGrid.from_array\<close> builds
  through these constructors. So a DH grid of shape (4, 4) has \<open>lmax = 1\<close>, a GLQ grid
  of shape (3, 5) has \<open>lmax = 2\<close>, and a GLQ grid of shape (3, 4) is refused.
\<close>

theorem grid_construction_dimensions:
  "map_sum id SHGrid.lmax (DHRealGrid_init a copy) =
     (let (n_lat, n_lon) = shape_of a in
      if n_lat mod 2 = 0 \<and> (n_lon = n_lat \<or> n_lon = 2 * n_lat) then Inr (n_lat div 2 - 1)
      else Inl ValueError)
   \<and> map_sum id SHGrid.lmax (DHComplexGrid_init a copy) =
     (let (n_lat, n_lon) = shape_of a in
      if n_lat mod 2 = 0 \<and> (n_lon = n_lat \<or> n_lon = 2 * n_lat) then Inr (n_lat div 2 - 1)
      else Inl ValueError)
   \<and> map_sum id SHGrid.lmax (GLQRealGrid_init SHGLQ a zs ws copy) =
     (let (n_lat, n_lon) = shape_of a in
      if n_lon = 2 * n_lat - 1 then Inr (n_lat - 1) else Inl ValueError)
   \<and> map_sum id SHGrid.lmax (GLQComplexGrid_init SHGLQ a zs ws copy) =
     (let (n_lat, n_lon) = shape_of a in
      if n_lon = 2 * n_lat - 1 then Inr (n_lat - 1) else Inl ValueError)
   \<and> SHGrid_from_array SHGLQ a ''DH'' copy =
     map_sum id Some (if dtype a = complex128 then DHComplexGrid_init a copy
                      else DHRealGrid_init a copy)
   \<and> SHGrid_from_array SHGLQ a ''GLQ'' copy =
     map_sum id Some (if dtype a = complex128 then GLQComplexGrid_init SHGLQ a None None copy
                      else GLQRealGrid_init SHGLQ a None None copy)
   \<and> (shape_of b = (4, 4) \<longrightarrow> map_sum id SHGrid.lmax (DHRealGrid_init b copy) = Inr 1)
   \<and> (shape_of c = (3, 5) \<longrightarrow>
        map_sum id SHGrid.lmax (GLQRealGrid_init SHGLQ c zs ws copy) = Inr 2)
   \<and> (shape_of d = (3, 4) \<longrightarrow> GLQRealGrid_init SHGLQ d zs ws copy = Inl ValueError)"
  by (auto simp: DHRealGrid_init_def DHComplexGrid_init_def DH_init_def GLQRealGrid_init_def
      GLQComplexGrid_init_def GLQ_init_def SHGrid_from_array_def upper_grid_names Let_def
      split: prod.splits)

theorem grid_construction_dimensions_witness:
  "shape_of grid_4_4 = (4, 4)
   \<and> shape_of grid_3_5 = (3, 5)
   \<and> shape_of grid_3_4 = (3, 4)
   \<and> map_sum id SHGrid.lmax
        (DHRealGrid_init grid_4_4 True) = Inr 1
   \<and> map_sum id SHGrid.lmax
        (GLQRealGrid_init (\<lambda>n. ([], [])) grid_3_5
           None None True) = Inr 2
   \<and> GLQRealGrid_init (\<lambda>n. ([], [])) grid_3_4
        None None True = Inl ValueError"
proof -
  have shapes:
    "shape_of grid_4_4 = (4, 4)"
    "shape_of grid_3_5 = (3, 5)"
    "shape_of grid_3_4 = (3, 4)"
    by (simp_all add: shape_of_def grid_4_4_def grid_3_5_def grid_3_4_def)
  show ?thesis
    using shapes
      grid_construction_dimensions
        [of grid_4_4 True "\<lambda>n. ([], [])" None None
            grid_4_4
            grid_3_5
            grid_3_4]
    by simp
qed

section \<open>Coupling matrix of a window bank\<close>

lemma mask_to_array_default:
  "column (tapers w) i = Inr v \<Longrightarrow> SHWindowMask_to_array vc w i ''4pi'' 1 = Inr (vc v)"
  by (simp add: SHWindowMask_to_array_def SHWindowMask__to_array_def lower_normalizations)

lemma column_ok:
  "i < ncols t \<Longrightarrow> \<exists>v. column t (int i) = Inr v"
  by (auto simp: column_def wrap_index_def)

lemma set_column_length:
  "length v = length t \<or> length v = 1 \<Longrightarrow> \<exists>t'. set_column t i v = Inr t' \<and> length t' = length t"
  by (auto simp: set_column_def)

lemma mask_loop_ok:
  assumes "nat k \<le> ncols (tapers w)"
    and "\<And>v. length (ps (vc v)) = n"
  shows "\<exists>tp. for_loop
             (\<lambda>i tp. case SHWindowMask_to_array vc w (int i) ''4pi'' 1 of
                  Inl e \<Rightarrow> Inl e
                | Inr a \<Rightarrow> set_column tp i (ps a))
             (arange k) (replicate n (replicate (nat k) 0)) = Inr tp \<and> length tp = n"
proof (rule for_loop_invariant [where P = "\<lambda>tp. length tp = n"])
  fix i s assume i: "i \<in> set (arange k)" and s: "length (s :: real list list) = n"
  then have "i < ncols (tapers w)" using assms(1) by (auto simp: arange_def)
  then obtain v where v: "column (tapers w) (int i) = Inr v"
    using column_ok by blast
  show "\<exists>s'. (case SHWindowMask_to_array vc w (int i) ''4pi'' 1 of Inl e \<Rightarrow> Inl e
                | Inr a \<Rightarrow> set_column s i (ps a)) = Inr s' \<and> length s' = n"
    using set_column_length [of "ps (vc v)" s i] s assms(2)
    by (simp add: mask_to_array_default [OF v])
qed simp

text \<open>
  Claim C7. For a window bank as its constructor builds it (a cap bank has
  \<open>lwin = tapers.shape[0] - 1\<close>; for a mask bank the tapers have a column for each of
  the \<open>nwin\<close> windows and the backend gives spectra of \<open>lwin + 1\<close> degrees), for a
  backend whose coupling matrix has \<open>lmax + lwin + 1\<close> rows as the spec says, and for
  \<open>lmax \<ge> lwin\<close>: mode \<open>full\<close> returns a matrix of \<open>lmax + lwin + 1\<close> rows, mode
  \<open>same\<close> its first \<open>lmax + 1\<close> rows, mode \<open>valid\<close> its first
  \<open>lmax - lwin + 1\<close> rows, and any other mode raises ValueError. With \<open>lmax = 5\<close>
  and \<open>lwin = 3\<close> these are 9, 6 and 3 rows (the witness).
\<close>

theorem couplingmatrix_modes:
  assumes contract: "\<And>l tp k wt. length (be l tp k wt) = nat (l + int (length tp))"
    and win:
      "(SHWindow.kind w = ''cap'' \<and> lwin w = int (length (tapers w)) - 1 \<and> 0 \<le> lwin w)
       \<or> (SHWindow.kind w = ''mask'' \<and> 0 \<le> lwin w \<and> 0 \<le> nwin w
            \<and> nat (nwin w) \<le> ncols (tapers w)
            \<and> (\<forall>v. length (ps (vc v)) = nat (lwin w + 1)))"
    and lm: "lwin w \<le> lm"
  shows "\<exists>full.
     couplingmatrix be vc ps w lm None None ''full'' = Inr full
     \<and> length full = nat (lm + lwin w + 1)
     \<and> couplingmatrix be vc ps w lm None None ''same'' = Inr (take (nat (lm + 1)) full)
     \<and> length (take (nat (lm + 1)) full) = nat (lm + 1)
     \<and> couplingmatrix be vc ps w lm None None ''valid'' = Inr (take (nat (lm - lwin w + 1)) full)
     \<and> length (take (nat (lm - lwin w + 1)) full) = nat (lm - lwin w + 1)
     \<and> (mode \<noteq> ''full'' \<and> mode \<noteq> ''same'' \<and> mode \<noteq> ''valid'' \<longrightarrow>
          couplingmatrix be vc ps w lm None None mode = Inl ValueError)"
proof -
  have "\<exists>full. (if SHWindow.kind w = ''cap'' then
               SHWindowCap__couplingmatrix be w lm None None
             else if SHWindow.kind w = ''mask'' then
               SHWindowMask__couplingmatrix be vc ps w lm None None
             else Inl AttributeError) = Inr full \<and> length full = nat (lm + lwin w + 1)"
    using win
  proof
    assume c: "SHWindow.kind w = ''cap'' \<and> lwin w = int (length (tapers w)) - 1 \<and> 0 \<le> lwin w"
    then show ?thesis
      by (auto simp: SHWindowCap__couplingmatrix_def contract Let_def)
  next
    assume m: "SHWindow.kind w = ''mask'' \<and> 0 \<le> lwin w \<and> 0 \<le> nwin w
            \<and> nat (nwin w) \<le> ncols (tapers w)
            \<and> (\<forall>v. length (ps (vc v)) = nat (lwin w + 1))"
    then obtain tp where tp: "for_loop
             (\<lambda>i tp. case SHWindowMask_to_array vc w (int i) ''4pi'' 1 of
                  Inl e \<Rightarrow> Inl e
                | Inr a \<Rightarrow> set_column tp i (ps a))
             (arange (nwin w)) (replicate (nat (lwin w + 1)) (replicate (nat (nwin w)) 0)) = Inr tp"
       "length tp = nat (lwin w + 1)"
      using mask_loop_ok [of "nwin w" w ps vc "nat (lwin w + 1)"] by blast
    from m have "SHWindow.kind w \<noteq> ''cap''" by simp
    with m tp show ?thesis
      by (auto simp: SHWindowMask__couplingmatrix_def contract Let_def)
  qed
  then obtain full where full: "(if SHWindow.kind w = ''cap'' then
               SHWindowCap__couplingmatrix be w lm None None
             else if SHWindow.kind w = ''mask'' then
               SHWindowMask__couplingmatrix be vc ps w lm None None
             else Inl AttributeError) = Inr full" "length full = nat (lm + lwin w + 1)"
    by blast
  have "0 \<le> lwin w" using win by auto
  with lm full show ?thesis
    by (intro exI [of _ full]) (simp add: couplingmatrix_def slice_to_def)
qed

theorem couplingmatrix_modes_witness:
  "couplingmatrix SHMTCouplingMatrix_spec unpack_zero SHPowerSpectrum_spec cap_window_3 5 None None ''full''
     = Inr (replicate 9 (replicate 6 0))
   \<and> couplingmatrix SHMTCouplingMatrix_spec unpack_zero SHPowerSpectrum_spec cap_window_3 5 None None ''same''
     = Inr (replicate 6 (replicate 6 0))
   \<and> couplingmatrix SHMTCouplingMatrix_spec unpack_zero SHPowerSpectrum_spec cap_window_3 5 None None ''valid''
     = Inr (replicate 3 (replicate 6 0))
   \<and> couplingmatrix SHMTCouplingMatrix_spec unpack_zero SHPowerSpectrum_spec cap_window_3 5 None None ''FULL''
     = Inl ValueError"
proof -
  have c: "\<And>l tp k wt. length (SHMTCouplingMatrix_spec l tp k wt) = nat (l + int (length tp))"
    by (simp add: SHMTCouplingMatrix_spec_def)
  have w: "(SHWindow.kind cap_window_3 = ''cap''
        \<and> lwin cap_window_3 = int (length (tapers cap_window_3)) - 1 \<and> 0 \<le> lwin cap_window_3)
       \<or> (SHWindow.kind cap_window_3 = ''mask'' \<and> 0 \<le> lwin cap_window_3 \<and> 0 \<le> nwin cap_window_3
            \<and> nat (nwin cap_window_3) \<le> ncols (tapers cap_window_3)
            \<and> (\<forall>v. length (SHPowerSpectrum_spec (unpack_zero v)) = nat (lwin cap_window_3 + 1)))"
    by (simp add: cap_window_3_def)
  have l: "lwin cap_window_3 \<le> 5" by (simp add: cap_window_3_def)
  have f: "couplingmatrix SHMTCouplingMatrix_spec unpack_zero SHPowerSpectrum_spec cap_window_3 5 None None ''full''
     = Inr (replicate 9 (replicate 6 0))"
    by (simp add: couplingmatrix_def SHWindowCap__couplingmatrix_def SHMTCouplingMatrix_spec_def
        cap_window_3_def)
  have lw: "lwin cap_window_3 = 3" by (simp add: cap_window_3_def)
  show ?thesis
    using couplingmatrix_modes [of SHMTCouplingMatrix_spec cap_window_3 SHPowerSpectrum_spec unpack_zero 5 "''FULL''", OF c w l]
    by (simp add: f lw)
qed

text \<open>
  Claim C10. When \<open>couplingmatrix\<close> is given a weights array, \<open>_couplingmatrix\<close> of
  either class passes the stored \<open>self.weights\<close> to the backend as \<open>taper_wt\<close>, not
  the array it was given. The method of a cap bank returns the backend's matrix for the
  squared tapers, the number of windows and the stored weights. The method of a mask
  bank, when the tapers have a column for each of the windows used and the backend gives
  spectra of \<open>lwin + 1\<close> degrees, fills \<open>tapers_power\<close> by its loop and returns the
  backend's matrix for \<open>tapers_power\<close>, the number of windows and the stored weights;
  \<open>couplingmatrix\<close> in mode \<open>full\<close> returns these matrices when the supplied array
  has as many entries as windows are used. So the result does not depend on the supplied
  array, and two calls that differ in it only (both passing the length check) return the
  same.
\<close>

theorem couplingmatrix_forwards_stored_weights:
  "SHWindowCap__couplingmatrix be w lm nw (Some ws) =
     Inr (be lm (map (map (\<lambda>x. x ^ 2)) (tapers w))
            (case nw of None \<Rightarrow> nwin w | Some n \<Rightarrow> n) (Some (SHWindow.weights w)))
   \<and> (\<forall>M. SHWindowMask__couplingmatrix be vc ps w lm nw (Some ws) = Inr M \<longrightarrow>
          (\<exists>tp. M = be lm tp (case nw of None \<Rightarrow> nwin w | Some n \<Rightarrow> n)
                         (Some (SHWindow.weights w))))
   \<and> SHWindowCap__couplingmatrix be w lm nw (Some ws)
       = SHWindowCap__couplingmatrix be w lm nw (Some ws')
   \<and> SHWindowMask__couplingmatrix be vc ps w lm nw (Some ws)
       = SHWindowMask__couplingmatrix be vc ps w lm nw (Some ws')
   \<and> (length ws = length ws' \<longrightarrow>
        couplingmatrix be vc ps w lm nw (Some ws) mode
          = couplingmatrix be vc ps w lm nw (Some ws') mode)
   \<and> (0 \<le> lwin w \<and> 0 \<le> (case nw of None \<Rightarrow> nwin w | Some n \<Rightarrow> n)
        \<and> nat (case nw of None \<Rightarrow> nwin w | Some n \<Rightarrow> n) \<le> ncols (tapers w)
        \<and> (\<forall>v. length (ps (vc v)) = nat (lwin w + 1)) \<longrightarrow>
        (\<exists>tp. for_loop
                 (\<lambda>i tp. case SHWindowMask_to_array vc w (int i) ''4pi'' 1 of
                            Inl e \<Rightarrow> Inl e
                          | Inr a \<Rightarrow> set_column tp i (ps a))
                 (arange (case nw of None \<Rightarrow> nwin w | Some n \<Rightarrow> n))
                 (replicate (nat (lwin w + 1))
                    (replicate (nat (case nw of None \<Rightarrow> nwin w | Some n \<Rightarrow> n)) 0)) = Inr tp
             \<and> length tp = nat (lwin w + 1)
             \<and> SHWindowMask__couplingmatrix be vc ps w lm nw (Some ws) =
                 Inr (be lm tp (case nw of None \<Rightarrow> nwin w | Some n \<Rightarrow> n)
                        (Some (SHWindow.weights w)))
             \<and> (SHWindow.kind w = ''mask''
                  \<and> int (length ws) = (case nw of None \<Rightarrow> nwin w | Some n \<Rightarrow> n) \<longrightarrow>
                couplingmatrix be vc ps w lm nw (Some ws) ''full'' =
                  Inr (be lm tp (case nw of None \<Rightarrow> nwin w | Some n \<Rightarrow> n)
                         (Some (SHWindow.weights w))))))
   \<and> (SHWindow.kind w = ''cap''
        \<and> int (length ws) = (case nw of None \<Rightarrow> nwin w | Some n \<Rightarrow> n) \<longrightarrow>
      couplingmatrix be vc ps w lm nw (Some ws) ''full'' =
        Inr (be lm (map (map (\<lambda>x. x ^ 2)) (tapers w))
               (case nw of None \<Rightarrow> nwin w | Some n \<Rightarrow> n) (Some (SHWindow.weights w))))"
proof -
  define k where "k = (case nw of None \<Rightarrow> nwin w | Some n \<Rightarrow> n)"
  have old: "SHWindowCap__couplingmatrix be w lm nw (Some ws) =
     Inr (be lm (map (map (\<lambda>x. x ^ 2)) (tapers w)) k (Some (SHWindow.weights w)))
   \<and> (\<forall>M. SHWindowMask__couplingmatrix be vc ps w lm nw (Some ws) = Inr M \<longrightarrow>
          (\<exists>tp. M = be lm tp k (Some (SHWindow.weights w))))
   \<and> SHWindowCap__couplingmatrix be w lm nw (Some ws)
       = SHWindowCap__couplingmatrix be w lm nw (Some ws')
   \<and> SHWindowMask__couplingmatrix be vc ps w lm nw (Some ws)
       = SHWindowMask__couplingmatrix be vc ps w lm nw (Some ws')
   \<and> (length ws = length ws' \<longrightarrow>
        couplingmatrix be vc ps w lm nw (Some ws) mode
          = couplingmatrix be vc ps w lm nw (Some ws') mode)"
    unfolding k_def
    by (auto simp: SHWindowCap__couplingmatrix_def SHWindowMask__couplingmatrix_def
        couplingmatrix_def Let_def split: sum.splits option.splits)
  have cap: "SHWindow.kind w = ''cap'' \<and> int (length ws) = k \<longrightarrow>
      couplingmatrix be vc ps w lm nw (Some ws) ''full'' =
        Inr (be lm (map (map (\<lambda>x. x ^ 2)) (tapers w)) k (Some (SHWindow.weights w)))"
    unfolding k_def
    by (auto simp: SHWindowCap__couplingmatrix_def couplingmatrix_def Let_def
        split: option.splits)
  have msk: "\<exists>tp. for_loop
                 (\<lambda>i tp. case SHWindowMask_to_array vc w (int i) ''4pi'' 1 of
                            Inl e \<Rightarrow> Inl e
                          | Inr a \<Rightarrow> set_column tp i (ps a))
                 (arange k) (replicate (nat (lwin w + 1)) (replicate (nat k) 0)) = Inr tp
             \<and> length tp = nat (lwin w + 1)
             \<and> SHWindowMask__couplingmatrix be vc ps w lm nw (Some ws) =
                 Inr (be lm tp k (Some (SHWindow.weights w)))
             \<and> (SHWindow.kind w = ''mask'' \<and> int (length ws) = k \<longrightarrow>
                couplingmatrix be vc ps w lm nw (Some ws) ''full'' =
                  Inr (be lm tp k (Some (SHWindow.weights w))))"
    if h: "0 \<le> lwin w \<and> 0 \<le> k \<and> nat k \<le> ncols (tapers w)
        \<and> (\<forall>v. length (ps (vc v)) = nat (lwin w + 1))"
  proof -
    from h obtain tp where tp: "for_loop
             (\<lambda>i tp. case SHWindowMask_to_array vc w (int i) ''4pi'' 1 of
                  Inl e \<Rightarrow> Inl e
                | Inr a \<Rightarrow> set_column tp i (ps a))
             (arange k) (replicate (nat (lwin w + 1)) (replicate (nat k) 0)) = Inr tp"
       "length tp = nat (lwin w + 1)"
      using mask_loop_ok [of k w ps vc "nat (lwin w + 1)"] by blast
    have m: "SHWindowMask__couplingmatrix be vc ps w lm nw (Some ws) =
                 Inr (be lm tp k (Some (SHWindow.weights w)))"
      using h tp(1) unfolding SHWindowMask__couplingmatrix_def k_def [symmetric] Let_def
      by simp
    have c: "SHWindow.kind w = ''mask'' \<and> int (length ws) = k \<longrightarrow>
                couplingmatrix be vc ps w lm nw (Some ws) ''full'' =
                  Inr (be lm tp k (Some (SHWindow.weights w)))"
      using m unfolding k_def
      by (auto simp: couplingmatrix_def Let_def split: option.splits)
    from tp m c show ?thesis by blast
  qed
  show ?thesis
    using old cap msk unfolding k_def by blast
qed

theorem couplingmatrix_forwards_stored_weights_witness:
  "SHWindow.kind cap_window_weighted = ''cap''
   \<and> length [5, 6 :: real] = length [7, 8 :: real]
   \<and> int (length [5, 6 :: real]) = nwin cap_window_weighted
   \<and> couplingmatrix echo_weights unpack_zero SHPowerSpectrum_spec cap_window_weighted 0 None
         (Some [5, 6]) ''full''
       = Inr [[1, 2]]
   \<and> couplingmatrix echo_weights unpack_zero SHPowerSpectrum_spec cap_window_weighted 0 None
         (Some [7, 8]) ''full''
       = Inr [[1, 2]]
   \<and> SHWindow.kind mask_window_weighted = ''mask''
   \<and> 0 \<le> lwin mask_window_weighted \<and> 0 \<le> nwin mask_window_weighted
   \<and> nat (nwin mask_window_weighted) \<le> ncols (tapers mask_window_weighted)
   \<and> (\<forall>v. length (SHPowerSpectrum_spec (unpack_degree_0 v))
            = nat (lwin mask_window_weighted + 1))
   \<and> int (length [5 :: real]) = nwin mask_window_weighted
   \<and> couplingmatrix echo_weights unpack_degree_0 SHPowerSpectrum_spec mask_window_weighted 0
         None (Some [5]) ''full''
       = Inr [[2]]
   \<and> couplingmatrix echo_weights unpack_degree_0 SHPowerSpectrum_spec mask_window_weighted 0
         None (Some [7]) ''full''
       = Inr [[2]]"
proof -
  have c: "SHWindow.kind cap_window_weighted = ''cap''"
    "int (length [5, 6 :: real]) = nwin cap_window_weighted"
    "SHWindow.weights cap_window_weighted = Some [1, 2]"
    by (simp_all add: cap_window_weighted_def)
  have m: "SHWindow.kind mask_window_weighted = ''mask''"
    "0 \<le> lwin mask_window_weighted" "0 \<le> nwin mask_window_weighted"
    "nat (nwin mask_window_weighted) \<le> ncols (tapers mask_window_weighted)"
    "\<forall>v. length (SHPowerSpectrum_spec (unpack_degree_0 v))
            = nat (lwin mask_window_weighted + 1)"
    "int (length [5 :: real]) = nwin mask_window_weighted"
    "int (length [7 :: real]) = nwin mask_window_weighted"
    "SHWindow.weights mask_window_weighted = Some [2]"
    by (simp_all add: mask_window_weighted_def ncols_def SHPowerSpectrum_spec_def
        unpack_degree_0_def shape1_def)
  have e: "\<And>l tp k x. echo_weights l tp k (Some (Some x)) = [x]"
    by (simp add: echo_weights_def)
  have c1: "couplingmatrix echo_weights unpack_zero SHPowerSpectrum_spec cap_window_weighted 0
      None (Some [5, 6]) ''full'' = Inr [[1, 2]]"
    using couplingmatrix_forwards_stored_weights
      [of echo_weights cap_window_weighted 0 None "[5, 6]" unpack_zero SHPowerSpectrum_spec
          "[5, 6]" "''full''"] c
    by (simp add: e)
  have ce: "couplingmatrix echo_weights unpack_zero SHPowerSpectrum_spec cap_window_weighted 0
      None (Some [5, 6]) ''full'' =
    couplingmatrix echo_weights unpack_zero SHPowerSpectrum_spec cap_window_weighted 0
      None (Some [7, 8]) ''full''"
    using couplingmatrix_forwards_stored_weights
      [of echo_weights cap_window_weighted 0 None "[5, 6]" unpack_zero SHPowerSpectrum_spec
          "[7, 8]" "''full''"]
    by simp
  have c2: "couplingmatrix echo_weights unpack_zero SHPowerSpectrum_spec cap_window_weighted 0
      None (Some [7, 8]) ''full'' = Inr [[1, 2]]"
    using c1 unfolding ce .
  have m1: "couplingmatrix echo_weights unpack_degree_0 SHPowerSpectrum_spec
      mask_window_weighted 0 None (Some [5]) ''full'' = Inr [[2]]"
    using couplingmatrix_forwards_stored_weights
      [of echo_weights mask_window_weighted 0 None "[5]" unpack_degree_0 SHPowerSpectrum_spec
          "[5]" "''full''"] m
    by (auto simp: e)
  have me: "couplingmatrix echo_weights unpack_degree_0 SHPowerSpectrum_spec
      mask_window_weighted 0 None (Some [5]) ''full'' =
    couplingmatrix echo_weights unpack_degree_0 SHPowerSpectrum_spec
      mask_window_weighted 0 None (Some [7]) ''full''"
    using couplingmatrix_forwards_stored_weights
      [of echo_weights mask_window_weighted 0 None "[5]" unpack_degree_0 SHPowerSpectrum_spec
          "[7]" "''full''"]
    by simp
  have m2: "couplingmatrix echo_weights unpack_degree_0 SHPowerSpectrum_spec
      mask_window_weighted 0 None (Some [7]) ''full'' = Inr [[2]]"
    using m1 unfolding me .
  show ?thesis
    using c(1,2) m(1-6) c1 c2 m1 m2 by simp
qed
section \<open>Setting coefficients\<close>

lemma fold_set3:
  assumes "has_shape a n0 n1 n2"
  shows "has_shape (fold (\<lambda>j c. set3 c (fi j) (fl j) (fm j) (fv j)) [0..<k] a) n0 n1 n2 \<and>
     (\<forall>i<n0. \<forall>l<n1. \<forall>m<n2.
        fold (\<lambda>j c. set3 c (fi j) (fl j) (fm j) (fv j)) [0..<k] a ! i ! l ! m =
          (case find (\<lambda>j. fi j = i \<and> fl j = l \<and> fm j = m) (rev [0..<k]) of
             None \<Rightarrow> a ! i ! l ! m | Some j \<Rightarrow> fv j))"
proof (induction k)
  case 0
  show ?case using assms by simp
next
  case (Suc k)
  then show ?case
    by (auto simp: has_shape_set3 nth_set3)
qed

lemma wrap_index_in_range: "0 \<le> i \<Longrightarrow> i < int n \<Longrightarrow> wrap_index n i = Some (nat i)"
  by (simp add: wrap_index_def)

lemma map_eq_upt: "length xs = k \<Longrightarrow> map f xs = map (\<lambda>j. f (xs ! j)) [0..<k]"
  by (auto intro: nth_equalityI)

lemma zip4_eq_upt:
  assumes "length as = k" "length bs = k" "length cs = k" "length ds = k"
  shows "zip as (zip bs (zip cs ds)) = map (\<lambda>j. (as ! j, bs ! j, cs ! j, ds ! j)) [0..<k]"
  using assms by (auto intro: nth_equalityI)

lemma set_coeffs_general:
  assumes shape: "has_shape (elems (coeffs s)) 2 n n" and n: "0 < n" and ne: "ls \<noteq> []"
    and len: "length vals = length ls" "length ms = length ls"
    and rng: "\<forall>j<length ls. 0 \<le> ls ! j \<and> ls ! j < int n \<and> \<bar>ms ! j\<bar> < int n"
  shows "\<exists>a'. set_coeffs s (Lists vals ls ms) = Inr (s\<lparr>coeffs := (coeffs s)\<lparr>elems := a'\<rparr>\<rparr>)
     \<and> has_shape a' 2 n n
     \<and> (\<forall>i<2. \<forall>l<n. \<forall>m<n. a' ! i ! l ! m =
          (case find (\<lambda>j. (if ms ! j < 0 then 1 else 0) = i \<and> nat (ls ! j) = l
                            \<and> nat \<bar>ms ! j\<bar> = m) (rev [0..<length ls]) of
             None \<Rightarrow> elems (coeffs s) ! i ! l ! m
           | Some j \<Rightarrow> cast (dtype (coeffs s)) (value_of (vals ! j))))"
proof -
  define k where "k = length ls"
  define a where "a = elems (coeffs s)"
  define fi where "fi = (\<lambda>j. if ms ! j < 0 then 1 else (0::nat))"
  define fl where "fl = (\<lambda>j. nat (ls ! j))"
  define fm where "fm = (\<lambda>j. nat \<bar>ms ! j\<bar>)"
  define fv where "fv = (\<lambda>j. cast (dtype (coeffs s)) (value_of (vals ! j)))"
  have la: "length a = 2" "shape1 a = n" "shape2 a = n"
    using shape n shape1_has_shape [OF shape] shape2_has_shape [OF shape]
    by (simp_all add: a_def has_shape_nth)
  have b: "broadcast_len (length ls) (length ms) = Some k"
    by (simp add: broadcast_len_def len k_def)
  have is1: "map (wrap_index 2) (map (\<lambda>m. if m < 0 then (1::int) else 0) ms) = map (\<lambda>j. Some (fi j)) [0..<k]"
    using len by (auto simp: k_def fi_def wrap_index_def intro!: nth_equalityI)
  have ls1: "map (wrap_index n) ls = map (\<lambda>j. Some (fl j)) [0..<k]"
    using rng by (auto simp: k_def fl_def wrap_index_in_range intro!: nth_equalityI)
  have ms1: "map (wrap_index n) (map abs ms) = map (\<lambda>j. Some (fm j)) [0..<k]"
    using rng len by (auto simp: k_def fm_def wrap_index_in_range intro!: nth_equalityI)
  have z: "zip (map the (map (\<lambda>j. Some (fi j)) [0..<k]))
             (zip (map the (map (\<lambda>j. Some (fl j)) [0..<k]))
                (zip (map the (map (\<lambda>j. Some (fm j)) [0..<k])) vals))
           = map (\<lambda>j. (fi j, fl j, fm j, vals ! j)) [0..<k]"
    using len by (auto simp: k_def intro!: nth_equalityI)
  have f: "fold (\<lambda>(i, l, m, v) c. set3 c i l m (cast (dtype (coeffs s)) (value_of v)))
             (map (\<lambda>j. (fi j, fl j, fm j, vals ! j)) [0..<k]) a
           = fold (\<lambda>j c. set3 c (fi j) (fl j) (fm j) (fv j)) [0..<k] a"
    by (simp add: fold_map comp_def fv_def)
  have nn: "None \<notin> set (map (\<lambda>j. Some (fi j)) [0..<k])"
    "None \<notin> set (map (\<lambda>j. Some (fl j)) [0..<k])"
    "None \<notin> set (map (\<lambda>j. Some (fm j)) [0..<k])"
    by auto
  have lk: "length ls = k" "length ms = k" "length vals = k"
    using len by (simp_all add: k_def)
  have ne': "\<not> (ls = [] \<or> ms = [])" using ne len by auto
  have eq: "set_coeffs s (Lists vals ls ms) =
      Inr (s\<lparr>coeffs := (coeffs s)\<lparr>elems :=
        fold (\<lambda>j c. set3 c (fi j) (fl j) (fm j) (fv j)) [0..<k] a\<rparr>\<rparr>)"
    unfolding set_coeffs.simps Let_def a_def [symmetric] if_not_P [OF ne'] b la option.case
    unfolding broadcast_to_def length_map lk simp_thms if_True if_False
    unfolding is1 ls1 ms1 z f
    using nn by simp
  from fold_set3 [of a 2 n n fi fl fm fv k] shape
  show ?thesis
    unfolding eq a_def [symmetric] fi_def fl_def fm_def fv_def k_def
    by (intro exI) (auto simp: a_def)
qed

lemma set_coeffs_scalars:
  assumes shape: "has_shape (elems (coeffs s)) 2 n n"
    and rng: "0 \<le> l0" "l0 < int n" "\<bar>m0\<bar> < int n"
    and ty: "dtype (coeffs s) = complex128 \<or> \<not> is_complex v"
  shows "\<exists>a'. set_coeffs s (Scalars v l0 m0) = Inr (s\<lparr>coeffs := (coeffs s)\<lparr>elems := a'\<rparr>\<rparr>)
     \<and> has_shape a' 2 n n
     \<and> (\<forall>i<2. \<forall>l<n. \<forall>m<n. a' ! i ! l ! m =
          (if i = (if m0 < 0 then 1 else 0) \<and> l = nat l0 \<and> m = nat \<bar>m0\<bar>
           then cast (dtype (coeffs s)) (value_of v)
           else elems (coeffs s) ! i ! l ! m))"
proof -
  define a where "a = elems (coeffs s)"
  define i0 where "i0 = (if m0 < 0 then 1 else (0::nat))"
  have n: "0 < n" using rng by simp
  have la: "length a = 2" "shape1 a = n" "shape2 a = n"
    using shape n shape1_has_shape [OF shape] shape2_has_shape [OF shape]
    by (simp_all add: a_def has_shape_nth)
  have w: "wrap_index 2 (if m0 < 0 then 1 else 0) = Some i0"
    "wrap_index n l0 = Some (nat l0)" "wrap_index n \<bar>m0\<bar> = Some (nat \<bar>m0\<bar>)"
    using rng by (simp_all add: wrap_index_def i0_def)
  have t: "\<not> (dtype (coeffs s) = float64 \<and> is_complex v)"
    using ty by auto
  have eq: "set_coeffs s (Scalars v l0 m0) =
      Inr (s\<lparr>coeffs := (coeffs s)\<lparr>elems :=
        set3 a i0 (nat l0) (nat \<bar>m0\<bar>) (cast (dtype (coeffs s)) (value_of v))\<rparr>\<rparr>)"
    unfolding set_coeffs.simps Let_def a_def [symmetric] la w option.case if_not_P [OF t]
    by (rule refl)
  have sh: "has_shape a 2 n n" using shape by (simp add: a_def)
  have i0: "i0 < 2" by (simp add: i0_def)
  have l0: "nat l0 < n" "nat \<bar>m0\<bar> < n" using rng by auto
  show ?thesis
    unfolding eq
  proof (intro exI conjI allI impI)
    show "has_shape (set3 a i0 (nat l0) (nat \<bar>m0\<bar>) (cast (dtype (coeffs s)) (value_of v))) 2 n n"
      by (rule has_shape_set3 [OF sh])
  next
    fix i l m :: nat assume "i < 2" "l < n" "m < n"
    then show "set3 a i0 (nat l0) (nat \<bar>m0\<bar>) (cast (dtype (coeffs s)) (value_of v)) ! i ! l ! m =
        (if i = (if m0 < 0 then 1 else 0) \<and> l = nat l0 \<and> m = nat \<bar>m0\<bar>
         then cast (dtype (coeffs s)) (value_of v)
         else elems (coeffs s) ! i ! l ! m)"
      using nth_set3 [OF sh, of i l m] by (simp add: a_def i0_def)
  qed (rule refl)
qed

text \<open>
  The two refusals of numpy that bound the statement below: an empty list of degrees or
  of orders is an array of floats and no index, and a complex scalar is not converted to
  an element of a real array.
\<close>

lemma set_coeffs_empty_index:
  "ls = [] \<or> ms = [] \<Longrightarrow> set_coeffs s (Lists vals ls ms) = Inl IndexError"
  by auto

lemma set_coeffs_complex_scalar_in_real_array:
  assumes "has_shape (elems (coeffs s)) 2 n n" "0 \<le> l0" "l0 < int n" "\<bar>m0\<bar> < int n"
    and "dtype (coeffs s) = float64"
  shows "set_coeffs s (Scalars (PyComplex z) l0 m0) = Inl TypeError"
proof -
  have n: "0 < n" using assms by simp
  have la: "length (elems (coeffs s)) = 2" "shape1 (elems (coeffs s)) = n"
    "shape2 (elems (coeffs s)) = n"
    using assms(1) n shape1_has_shape [OF assms(1)] shape2_has_shape [OF assms(1)]
    by (simp_all add: has_shape_nth)
  show ?thesis
    using assms(2-) by (auto simp: la wrap_index_def)
qed

lemma from_zeros_lmax2: "from_zeros 2 ''real'' ''4pi'' 1 = Inr (Some zeros_lmax2)"
  unfolding zeros_lmax2_def by code_simp

lemma set_coeffs_zeros_lmax2:
  "set_coeffs zeros_lmax2 (Scalars (PyFloat 10) 1 1) =
     Inr (zeros_lmax2\<lparr>coeffs := \<lparr>dtype = float64,
            elems = [[[0, 0, 0], [0, 10, 0], [0, 0, 0]], [[0, 0, 0], [0, 0, 0], [0, 0, 0]]]\<rparr>\<rparr>)"
  by (simp add: zeros_lmax2_def wrap_index_def shape1_def shape2_def set3_def cast_def)

lemma to_array_after_set_coeffs:
  "to_array (zeros_lmax2\<lparr>coeffs := \<lparr>dtype = float64,
            elems = [[[0, 0, 0], [0, 10, 0], [0, 0, 0]], [[0, 0, 0], [0, 0, 0], [0, 0, 0]]]\<rparr>\<rparr>)
     None None None =
   Inr \<lparr>dtype = float64,
        elems = [[[0, 0, 0], [0, 10, 0], [0, 0, 0]], [[0, 0, 0], [0, 0, 0], [0, 0, 0]]]\<rparr>"
  by (simp add: to_array_def SHRealCoeffs__to_array_def coeffs__to_array_def slice_to_def
      lower_normalizations zeros_lmax2_def)

text \<open>
  Claim C8. With three nonempty lists of one length (values, degrees, signed orders),
  every degree and order within the array, \<open>set_coeffs\<close> succeeds and changes only the
  array: the entry at plane \<open>i\<close>, degree \<open>l\<close>, order \<open>m\<close> holds the value (cast to the
  dtype of the array) of the last triple that addresses it, where a triple addresses
  plane 1 when its order is negative and plane 0 otherwise, and the order \<open>|m|\<close>; an
  entry that no triple addresses is unchanged. With three scalars, the degree and order
  within the array, and a value that is not a complex number when the array is real,
  \<open>set_coeffs\<close> writes the value at the one entry so addressed and changes no other.
  On the zero-filled real set of maximum degree 2, \<open>set_coeffs(10.0, 1, 1)\<close> and then
  \<open>to_array()\<close> give 10 at plane 0, degree 1, order 1, and zero elsewhere.
\<close>

theorem set_coeffs_writes_in_place:
  assumes "has_shape (elems (coeffs s)) 2 n n"
    and "ls \<noteq> []" and "length vals = length ls" and "length ms = length ls"
    and "\<forall>j<length ls. 0 \<le> ls ! j \<and> ls ! j < int n \<and> \<bar>ms ! j\<bar> < int n"
    and "0 \<le> l0" and "l0 < int n" and "\<bar>m0\<bar> < int n"
    and "dtype (coeffs s) = complex128 \<or> \<not> is_complex v"
  shows "(\<exists>a'. set_coeffs s (Lists vals ls ms) = Inr (s\<lparr>coeffs := (coeffs s)\<lparr>elems := a'\<rparr>\<rparr>)
       \<and> has_shape a' 2 n n
       \<and> (\<forall>i<2. \<forall>l<n. \<forall>m<n. a' ! i ! l ! m =
            (case find (\<lambda>j. (if ms ! j < 0 then 1 else 0) = i \<and> nat (ls ! j) = l
                              \<and> nat \<bar>ms ! j\<bar> = m) (rev [0..<length ls]) of
               None \<Rightarrow> elems (coeffs s) ! i ! l ! m
             | Some j \<Rightarrow> cast (dtype (coeffs s)) (value_of (vals ! j)))))
     \<and> (\<exists>a'. set_coeffs s (Scalars v l0 m0) = Inr (s\<lparr>coeffs := (coeffs s)\<lparr>elems := a'\<rparr>\<rparr>)
       \<and> has_shape a' 2 n n
       \<and> (\<forall>i<2. \<forall>l<n. \<forall>m<n. a' ! i ! l ! m =
            (if i = (if m0 < 0 then 1 else 0) \<and> l = nat l0 \<and> m = nat \<bar>m0\<bar>
             then cast (dtype (coeffs s)) (value_of v)
             else elems (coeffs s) ! i ! l ! m)))
     \<and> from_zeros 2 ''real'' ''4pi'' 1 = Inr (Some zeros_lmax2)
     \<and> (\<exists>s'. set_coeffs zeros_lmax2 (Scalars (PyFloat 10) 1 1) = Inr s'
          \<and> to_array s' None None None =
              Inr \<lparr>dtype = float64,
                   elems = [[[0, 0, 0], [0, 10, 0], [0, 0, 0]],
                            [[0, 0, 0], [0, 0, 0], [0, 0, 0]]]\<rparr>)"
proof -
  have n: "0 < n" using assms(6,7) by simp
  show ?thesis
    using set_coeffs_general [OF assms(1) n assms(2-5)] set_coeffs_scalars [OF assms(1,6-9)]
    unfolding from_zeros_lmax2 set_coeffs_zeros_lmax2 sum.inject ex_simps simp_thms
      to_array_after_set_coeffs
    by (intro conjI)
qed

theorem set_coeffs_writes_in_place_witness:
  "has_shape (elems (coeffs zeros_lmax2)) 2 3 3
   \<and> [1 :: int] \<noteq> []
   \<and> length [PyFloat 10] = length [1 :: int]
   \<and> 0 \<le> [1 :: int] ! 0 \<and> [1 :: int] ! 0 < int 3 \<and> \<bar>[- 2 :: int] ! 0\<bar> < int 3
   \<and> \<not> is_complex (PyFloat 10)
   \<and> set_coeffs zeros_lmax2 (Lists [PyFloat 10] [1] [- 2]) =
       Inr (zeros_lmax2\<lparr>coeffs := (coeffs zeros_lmax2)\<lparr>elems :=
              [[[0, 0, 0], [0, 0, 0], [0, 0, 0]], [[0, 0, 0], [0, 0, 10], [0, 0, 0]]]\<rparr>\<rparr>)
   \<and> set_coeffs zeros_lmax2 (Scalars (PyFloat 10) 1 1) =
       Inr (zeros_lmax2\<lparr>coeffs := (coeffs zeros_lmax2)\<lparr>elems :=
              [[[0, 0, 0], [0, 10, 0], [0, 0, 0]], [[0, 0, 0], [0, 0, 0], [0, 0, 0]]]\<rparr>\<rparr>)"
proof -
  have h: "has_shape (elems (coeffs zeros_lmax2)) 2 3 3"
    "[1 :: int] \<noteq> []"
    "length [PyFloat 10] = length [1 :: int]" "length [- 2 :: int] = length [1 :: int]"
    "\<forall>j<length [1 :: int]. 0 \<le> [1 :: int] ! j \<and> [1 :: int] ! j < int 3 \<and> \<bar>[- 2 :: int] ! j\<bar> < int 3"
    "0 \<le> (1::int)" "(1::int) < int 3" "\<bar>1::int\<bar> < int 3"
    "dtype (coeffs zeros_lmax2) = complex128 \<or> \<not> is_complex (PyFloat 10)"
    by (simp_all add: zeros_lmax2_def has_shape_def)
  have e: "set_coeffs zeros_lmax2 (Lists [PyFloat 10] [1] [- 2]) =
     Inr (zeros_lmax2\<lparr>coeffs := (coeffs zeros_lmax2)\<lparr>elems :=
            [[[0, 0, 0], [0, 0, 0], [0, 0, 0]], [[0, 0, 0], [0, 0, 10], [0, 0, 0]]]\<rparr>\<rparr>)"
    "set_coeffs zeros_lmax2 (Scalars (PyFloat 10) 1 1) =
       Inr (zeros_lmax2\<lparr>coeffs := (coeffs zeros_lmax2)\<lparr>elems :=
              [[[0, 0, 0], [0, 10, 0], [0, 0, 0]], [[0, 0, 0], [0, 0, 0], [0, 0, 0]]]\<rparr>\<rparr>)"
    by (simp_all add: zeros_lmax2_def broadcast_len_def broadcast_to_def
        wrap_index_def shape1_def shape2_def set3_def cast_def)
  show ?thesis
    using set_coeffs_writes_in_place [OF h] h(1,3,5)
    by (simp add: e del: set_coeffs.simps)
qed
section \<open>Conversion to complex coefficients\<close>

lemma SHrtoc_spec_unit:
  "SHrtoc_spec \<lparr>dtype = float64, elems = [[[1]], [[0]]]\<rparr> =
     \<lparr>dtype = float64, elems = [[[1]], [[0]]]\<rparr>"
  by (simp add: SHrtoc_spec_def shape1_def)

lemma make_complex_unit:
  "SHRealCoeffs__make_complex SHrtoc_spec unit_real =
     Inr \<lparr>mask_arr = [[[True]], [[False]]], lmax = 0, kind = ''complex'',
          normalization = ''4pi'', csphase = 1,
          coeffs = \<lparr>dtype = complex128, elems = [[[1]], [[1]]]\<rparr>\<rparr>"
  by (simp add: SHRealCoeffs__make_complex_def unit_real_fields SHrtoc_spec_unit Let_def
      unit_array_def is_square_def arange_def from_array_def lower_normalizations iscomplexobj_def
      SHComplexCoeffs_init_def coeffs_init_def shape1_def make_mask_0)

text \<open>
  Claim C1 (the code departs from it). Entries outside the mask should be zero after
  every conversion call. \<open>convert(kind='complex')\<close> on the real coefficient set built
  from \<open>[[[1.]], [[0.]]]\<close>, which satisfies the invariant, returns a complex set whose
  entry at plane 1, degree 0, order 0 is 1, where the mask is false:
  \<open>_make_complex\<close> fills plane 1 with the conjugate of the whole of plane 0, order
  0 included, and it and \<open>convert\<close> build their results with \<open>copy=False\<close>, so
  the constructor does not zero the entry.
\<close>

theorem convert_to_complex_breaks_mask_invariant:
  "from_array unit_array ''4pi'' 1 True = Inr unit_real
   \<and> outside_mask_zero unit_real
   \<and> convert SHrtoc_spec SHctor unit_real None None None (Some ''complex'') True =
       Inr \<lparr>mask_arr = [[[True]], [[False]]], lmax = 0, kind = ''complex'',
            normalization = ''4pi'', csphase = 1,
            coeffs = \<lparr>dtype = complex128, elems = [[[1]], [[1]]]\<rparr>\<rparr>
   \<and> \<not> outside_mask_zero
         \<lparr>mask_arr = [[[True]], [[False]]], lmax = 0, kind = ''complex'',
          normalization = ''4pi'', csphase = 1,
          coeffs = \<lparr>dtype = complex128, elems = [[[1]], [[1]]]\<rparr>\<rparr>"
proof -
  have c: "convert SHrtoc_spec SHctor unit_real None None None (Some ''complex'') True =
       Inr \<lparr>mask_arr = [[[True]], [[False]]], lmax = 0, kind = ''complex'',
            normalization = ''4pi'', csphase = 1,
            coeffs = \<lparr>dtype = complex128, elems = [[[1]], [[1]]]\<rparr>\<rparr>"
    apply (simp add: convert_def Let_def unit_real_fields lower_normalizations make_complex_unit)
    apply (simp add: to_array_def SHComplexCoeffs__to_array_def coeffs__to_array_def slice_to_def
      lower_normalizations from_array_def iscomplexobj_def SHComplexCoeffs_init_def
      coeffs_init_def shape1_def make_mask_0)
    done
  show ?thesis
    by (simp add: from_array_unit_real c) (simp add: outside_mask_zero_def unit_real_def unit_array_def)
qed

subsection \<open>Round trip of normalization and Condon-Shortley phase\<close>

text \<open>
  With \<open>copy=False\<close> the constructor \<open>SHCoeffs.from_array\<close> stores the array it is
  given, unchanged.
\<close>

lemma from_array_nocopy: "from_array a nrm cs False = Inr y \<Longrightarrow> coeffs y = a"
  by (auto simp: from_array_def SHComplexCoeffs_init_def SHRealCoeffs_init_def coeffs_init_def
      Let_def split: if_splits sum.splits)

text \<open>
  Claim C2. For a coefficient set \<open>s\<close> of either kind whose array has the shape
  \<open>(2, lmax + 1, lmax + 1)\<close>, \<open>lmax \<ge> 0\<close>, and whose normalization and Condon-Shortley
  phase are among \<open>4pi\<close>, \<open>ortho\<close>, \<open>schmidt\<close> and \<open>1\<close>, \<open>-1\<close>, and for every target
  normalization \<open>n2\<close> and phase \<open>c2\<close> among the same values: \<open>to_array\<close> converts the
  array to \<open>n2\<close>, \<open>c2\<close>; the coefficient set built from that array with these
  conventions has the same maximum degree; and its \<open>to_array\<close> back to the
  conventions of \<open>s\<close> returns the array of \<open>s\<close>. The scaling factors are real
  numbers here, so the equality is exact. The degree argument of \<open>to_array\<close> is
  either left out or the maximum degree of the set.
\<close>

theorem normalization_csphase_round_trip:
  assumes sh: "has_shape (elems (coeffs s)) 2 n n" and n: "0 < n"
    and lm: "SHCoeffs.lmax s = int n - 1"
    and knd: "SHCoeffs.kind s = ''real'' \<or> SHCoeffs.kind s = ''complex''"
    and n1: "normalization s = ''4pi'' \<or> normalization s = ''ortho''
             \<or> normalization s = ''schmidt''"
    and c1: "csphase s = 1 \<or> csphase s = - 1"
    and n2: "n2 = ''4pi'' \<or> n2 = ''ortho'' \<or> n2 = ''schmidt''"
    and c2: "c2 = 1 \<or> c2 = - 1"
    and lo: "lm_opt = None \<or> lm_opt = Some (SHCoeffs.lmax s)"
    and lo': "lm_opt' = None \<or> lm_opt' = Some (SHCoeffs.lmax s)"
  shows "\<exists>b y. to_array s (Some n2) (Some c2) lm_opt = Inr b
     \<and> from_array b n2 c2 False = Inr y
     \<and> SHCoeffs.lmax y = SHCoeffs.lmax s
     \<and> to_array y (Some (normalization s)) (Some (csphase s)) lm_opt' = Inr (coeffs s)"
proof -
  from to_array_char [OF sh n lm knd n2 c2 lo] obtain e where e:
    "to_array s (Some n2) (Some c2) lm_opt = Inr ((coeffs s)\<lparr>elems := e\<rparr>)"
    "has_shape e 2 n n"
    "\<forall>i<2. \<forall>l<n. \<forall>m<n.
          e ! i ! l ! m =
            converted_entry (normalization s) (csphase s) n2 c2 l m
              (elems (coeffs s) ! i ! l ! m)"
    by blast
  define b where "b = (coeffs s)\<lparr>elems := e\<rparr>"
  have bsh: "has_shape (elems b) 2 n n" using e(2) by (simp add: b_def)
  have lw: "lower n2 \<in> {''4pi'', ''ortho'', ''schmidt''}" "lower n2 = n2"
    using n2 by (auto simp: lower_normalizations)
  from from_array_char [OF bsh n lw(1) c2, of False] obtain y where y:
    "from_array b n2 c2 False = Inr y" "SHCoeffs.lmax y = int n - 1"
    "SHCoeffs.kind y = (if dtype b = complex128 then ''complex'' else ''real'')"
    "normalization y = n2" "csphase y = c2"
    unfolding lw(2) by blast
  have cy: "coeffs y = b" using from_array_nocopy [OF y(1)] .
  have ysh: "has_shape (elems (coeffs y)) 2 n n" using bsh cy by simp
  have yk: "SHCoeffs.kind y = ''real'' \<or> SHCoeffs.kind y = ''complex''" using y(3) by simp
  have lo2: "lm_opt' = None \<or> lm_opt' = Some (SHCoeffs.lmax y)" using lo' lm y(2) by simp
  from to_array_char [OF ysh n y(2) yk n1 c1 lo2] obtain e' where e':
    "to_array y (Some (normalization s)) (Some (csphase s)) lm_opt'
       = Inr ((coeffs y)\<lparr>elems := e'\<rparr>)"
    "has_shape e' 2 n n"
    "\<forall>i<2. \<forall>l<n. \<forall>m<n.
          e' ! i ! l ! m =
            converted_entry n2 c2 (normalization s) (csphase s) l m
              (elems (coeffs y) ! i ! l ! m)"
    unfolding y(4,5) by blast
  have "e' = elems (coeffs s)"
  proof (rule arr3_eqI [OF e'(2) sh])
    fix i l m :: nat assume "i < 2" "l < n" "m < n"
    then show "e' ! i ! l ! m = elems (coeffs s) ! i ! l ! m"
      using e'(3) e(3) converted_entry_inverse [OF n1 n2]
      by (simp add: cy b_def)
  qed
  then have "(coeffs y)\<lparr>elems := e'\<rparr> = coeffs s" by (simp add: cy b_def)
  with e(1) y(1,2) e'(1) lm show ?thesis unfolding b_def by simp
qed

theorem normalization_csphase_round_trip_witness:
  "has_shape (elems (coeffs sample_real)) 2 2 2
   \<and> SHCoeffs.lmax sample_real = int 2 - 1
   \<and> SHCoeffs.kind sample_real = ''real''
   \<and> normalization sample_real = ''4pi''
   \<and> csphase sample_real = 1
   \<and> (\<exists>b y. to_array sample_real (Some ''schmidt'') (Some (- 1)) None = Inr b
        \<and> from_array b ''schmidt'' (- 1) False = Inr y
        \<and> SHCoeffs.lmax y = SHCoeffs.lmax sample_real
        \<and> to_array y (Some ''4pi'') (Some 1) None = Inr (coeffs sample_real))"
proof -
  have h: "has_shape (elems (coeffs sample_real)) 2 2 2"
    by (simp add: sample_real_def has_shape_def)
  have f: "SHCoeffs.lmax sample_real = int 2 - 1" "SHCoeffs.kind sample_real = ''real''"
    "normalization sample_real = ''4pi''" "csphase sample_real = 1"
    by (simp_all add: sample_real_def)
  show ?thesis
    using normalization_csphase_round_trip
      [of sample_real 2 "''schmidt''" "- 1" None None] h f
    by simp
qed

end
